theory Spec2Isabelle
  imports Complex_Main "HOL-Library.Word"
begin

section \<open>JavaScript values\<close>

text \<open>
  A JavaScript string is a sequence of UTF-16 code units; a \<open>Buffer\<close> is a sequence of
  bytes. String literals of the source are written with \<open>js_str\<close>.
\<close>

type_synonym js_string = "16 word list"
type_synonym bytes = "8 word list"

definition js_str :: "string \<Rightarrow> js_string" where
  "js_str s = map (\<lambda>c. of_char c) s"

datatype js_number = NaN | Finite real | PosInfinity | NegInfinity

datatype js_value =
    Undefined
  | Null
  | Boolean bool
  | Number js_number
  | BigInt int
  | String js_string
  | Symbol js_string
  | Function js_string
  | Array "js_value list"
  | Object "(js_string \<times> js_value) list"

text \<open>The \<open>typeof\<close> operator.\<close>

fun typeof :: "js_value \<Rightarrow> string" where
  "typeof Undefined = ''undefined''"
| "typeof Null = ''object''"
| "typeof (Boolean b) = ''boolean''"
| "typeof (Number n) = ''number''"
| "typeof (BigInt i) = ''bigint''"
| "typeof (String s) = ''string''"
| "typeof (Symbol d) = ''symbol''"
| "typeof (Function f) = ''function''"
| "typeof (Array vs) = ''object''"
| "typeof (Object ps) = ''object''"

text \<open>ToBoolean: what \<open>!v\<close> and \<open>v && ...\<close> test.\<close>

fun truthy :: "js_value \<Rightarrow> bool" where
  "truthy Undefined = False"
| "truthy Null = False"
| "truthy (Boolean b) = b"
| "truthy (Number n) = (n \<noteq> NaN \<and> n \<noteq> Finite 0)"
| "truthy (BigInt i) = (i \<noteq> 0)"
| "truthy (String s) = (s \<noteq> [])"
| "truthy (Symbol d) = True"
| "truthy (Function f) = True"
| "truthy (Array vs) = True"
| "truthy (Object ps) = True"

text \<open>
  Reading a data property \<open>v.k\<close> of a value that is neither \<open>null\<close> nor \<open>undefined\<close>: an
  object yields the property it holds, and \<open>undefined\<close> when it holds none; the names read
  by the source (\<open>code\<close>, \<open>content\<close>, \<open>statusCode\<close>, \<open>message\<close>) are no built-in property
  of a primitive, an array or a function, so these yield \<open>undefined\<close>.
\<close>

fun get_prop :: "js_value \<Rightarrow> js_string \<Rightarrow> js_value" where
  "get_prop (Object ps) k = (case map_of ps k of Some v \<Rightarrow> v | None \<Rightarrow> Undefined)"
| "get_prop v k = Undefined"

text \<open>Optional chaining \<open>v?.k\<close>.\<close>

definition opt_prop :: "js_value \<Rightarrow> js_string \<Rightarrow> js_value" where
  "opt_prop v k = (if v = Null \<or> v = Undefined then Undefined else get_prop v k)"

text \<open>The string held by a value whose \<open>typeof\<close> is \<open>string\<close>.\<close>

fun as_string :: "js_value \<Rightarrow> js_string" where
  "as_string (String s) = s"
| "as_string v = []"

text \<open>The comparison \<open>n > m\<close> of a number with a finite number: false on \<open>NaN\<close>.\<close>

fun number_gt :: "js_number \<Rightarrow> real \<Rightarrow> bool" where
  "number_gt (Finite x) m = (m < x)"
| "number_gt PosInfinity m = True"
| "number_gt NegInfinity m = False"
| "number_gt NaN m = False"

text \<open>Decimal rendering of an integer inside a template literal.\<close>

fun digits_of :: "nat \<Rightarrow> js_string" where
  "digits_of n =
     (if n < 10 then [of_nat (48 + n)] else digits_of (n div 10) @ [of_nat (48 + n mod 10)])"

definition number_str :: "int \<Rightarrow> js_string" where
  "number_str i = (if i < 0 then js_str ''-'' @ digits_of (nat (- i)) else digits_of (nat i))"

section \<open>UTF-8\<close>

definition is_high :: "16 word \<Rightarrow> bool" where
  "is_high u = (0xD800 \<le> u \<and> u \<le> 0xDBFF)"

definition is_low :: "16 word \<Rightarrow> bool" where
  "is_low u = (0xDC00 \<le> u \<and> u \<le> 0xDFFF)"

text \<open>
  The code points a string stands for when it is encoded: a surrogate pair is one
  supplementary code point, and a surrogate that is not part of a pair is replaced by
  U+FFFD.
\<close>

fun code_points :: "js_string \<Rightarrow> nat list" where
  "code_points [] = []"
| "code_points [u] = (if is_high u \<or> is_low u then [0xFFFD] else [unat u])"
| "code_points (u # v # us) =
     (if is_high u \<and> is_low v
        then (0x10000 + (unat u - 0xD800) * 0x400 + (unat v - 0xDC00)) # code_points us
      else if is_high u \<or> is_low u then 0xFFFD # code_points (v # us)
      else unat u # code_points (v # us))"

definition encode_cp :: "nat \<Rightarrow> bytes" where
  "encode_cp c =
     (if c < 0x80 then [of_nat c]
      else if c < 0x800 then [of_nat (0xC0 + c div 0x40), of_nat (0x80 + c mod 0x40)]
      else if c < 0x10000 then
        [of_nat (0xE0 + c div 0x1000), of_nat (0x80 + c div 0x40 mod 0x40),
         of_nat (0x80 + c mod 0x40)]
      else
        [of_nat (0xF0 + c div 0x40000), of_nat (0x80 + c div 0x1000 mod 0x40),
         of_nat (0x80 + c div 0x40 mod 0x40), of_nat (0x80 + c mod 0x40)])"

definition utf8_encode :: "js_string \<Rightarrow> bytes" where
  "utf8_encode s = concat (map encode_cp (code_points s))"

text \<open>\<open>Buffer.byteLength(s, 'utf8')\<close> and \<open>new TextEncoder().encode(s).length\<close>.\<close>

definition byteLength :: "js_string \<Rightarrow> nat" where
  "byteLength s = length (utf8_encode s)"

text \<open>
  The UTF-8 decoder behind \<open>readFile(path, 'utf8')\<close>: \<open>needed\<close> continuation bytes are still
  expected for the code point \<open>cp\<close> under construction, and the next one must lie between
  \<open>lo\<close> and \<open>hi\<close>. An ill-formed sequence yields U+FFFD and decoding resumes at the byte
  that broke it.
\<close>

function utf8_decoder :: "nat \<Rightarrow> nat \<Rightarrow> nat \<Rightarrow> nat \<Rightarrow> bytes \<Rightarrow> nat list" where
  "utf8_decoder needed cp lo hi [] = (if needed = 0 then [] else [0xFFFD])"
| "utf8_decoder needed cp lo hi (b # bs) =
     (if needed = 0 then
        (if unat b \<le> 0x7F then unat b # utf8_decoder 0 0 0x80 0xBF bs
         else if 0xC2 \<le> unat b \<and> unat b \<le> 0xDF
           then utf8_decoder 1 (unat b mod 0x20) 0x80 0xBF bs
         else if 0xE0 \<le> unat b \<and> unat b \<le> 0xEF
           then utf8_decoder 2 (unat b mod 0x10)
                  (if unat b = 0xE0 then 0xA0 else 0x80) (if unat b = 0xED then 0x9F else 0xBF) bs
         else if 0xF0 \<le> unat b \<and> unat b \<le> 0xF4
           then utf8_decoder 3 (unat b mod 8)
                  (if unat b = 0xF0 then 0x90 else 0x80) (if unat b = 0xF4 then 0x8F else 0xBF) bs
         else 0xFFFD # utf8_decoder 0 0 0x80 0xBF bs)
      else if unat b < lo \<or> hi < unat b then 0xFFFD # utf8_decoder 0 0 0x80 0xBF (b # bs)
      else if needed = 1 then (cp * 0x40 + unat b mod 0x40) # utf8_decoder 0 0 0x80 0xBF bs
      else utf8_decoder (needed - 1) (cp * 0x40 + unat b mod 0x40) 0x80 0xBF bs)"
  by pat_completeness auto
termination
  by (relation "measure (\<lambda>(needed, cp, lo, hi, bs). 2 * length bs + (if needed = 0 then 0 else 1))")
     auto

definition units_of_cp :: "nat \<Rightarrow> js_string" where
  "units_of_cp c =
     (if c < 0x10000 then [of_nat c]
      else [of_nat (0xD800 + (c - 0x10000) div 0x400), of_nat (0xDC00 + (c - 0x10000) mod 0x400)])"

definition utf8_decode :: "bytes \<Rightarrow> js_string" where
  "utf8_decode bs = concat (map units_of_cp (utf8_decoder 0 0 0x80 0xBF bs))"

text \<open>A string is well formed when every surrogate in it is part of a pair.\<close>

fun well_formed :: "js_string \<Rightarrow> bool" where
  "well_formed [] = True"
| "well_formed [u] = (\<not> is_high u \<and> \<not> is_low u)"
| "well_formed (u # v # us) =
     (if is_high u then is_low v \<and> well_formed us
      else \<not> is_low u \<and> well_formed (v # us))"

section \<open>The file system\<close>

text \<open>
  The storage the module works on, as \<open>node:fs/promises\<close> presents it: a file holds bytes
  and a modification time (\<open>mtimeMs\<close>), and the world records, besides the files, every
  call the process has issued, in order.
\<close>

record fs_file =
  file_bytes :: bytes
  file_mtimeMs :: real

datatype fs_call =
    ReadFile js_string
  | WriteFile js_string js_string
  | Rename js_string js_string
  | Stat js_string
  | Unlink js_string

record world =
  files :: "js_string \<rightharpoonup> fs_file"
  calls :: "fs_call list"

text \<open>The error object a failed call rejects with carries its cause in \<open>code\<close>.\<close>

definition errno :: "string \<Rightarrow> js_value" where
  "errno c = Object [(js_str ''code'', String (js_str c))]"

definition issue :: "fs_call \<Rightarrow> world \<Rightarrow> world" where
  "issue c w = w\<lparr>calls := calls w @ [c]\<rparr>"

text \<open>
  Each call takes the failure the environment imposes on it, if any (access rights, a
  device error, a full disk, another process): the call then rejects with that error and
  changes nothing, except that a failed \<open>writeFile\<close> may leave the first \<open>n\<close> bytes of the
  data behind. A call that meets no such failure does what it is for, and rejects with
  \<open>ENOENT\<close> where the file it names does not exist. \<open>rename\<close> replaces its target in one
  step or not at all.
\<close>

definition readFile ::
  "js_value option \<Rightarrow> js_string \<Rightarrow> world \<Rightarrow> (js_value + js_string) \<times> world" where
  "readFile fault p w =
     (case fault of
        Some e \<Rightarrow> (Inl e, issue (ReadFile p) w)
      | None \<Rightarrow>
          (case files w p of
             None \<Rightarrow> (Inl (errno ''ENOENT''), issue (ReadFile p) w)
           | Some f \<Rightarrow> (Inr (utf8_decode (file_bytes f)), issue (ReadFile p) w)))"

definition stat ::
  "js_value option \<Rightarrow> js_string \<Rightarrow> world \<Rightarrow> (js_value + real) \<times> world" where
  "stat fault p w =
     (case fault of
        Some e \<Rightarrow> (Inl e, issue (Stat p) w)
      | None \<Rightarrow>
          (case files w p of
             None \<Rightarrow> (Inl (errno ''ENOENT''), issue (Stat p) w)
           | Some f \<Rightarrow> (Inr (file_mtimeMs f), issue (Stat p) w)))"

definition writeFile ::
  "(js_value \<times> nat option) option \<Rightarrow> real \<Rightarrow> js_string \<Rightarrow> js_string \<Rightarrow> world
     \<Rightarrow> (js_value + unit) \<times> world" where
  "writeFile fault t p d w =
     (case fault of
        None \<Rightarrow>
          (Inr (),
           (issue (WriteFile p d) w)
             \<lparr>files := (files w)(p \<mapsto> \<lparr>file_bytes = utf8_encode d, file_mtimeMs = t\<rparr>)\<rparr>)
      | Some (e, None) \<Rightarrow> (Inl e, issue (WriteFile p d) w)
      | Some (e, Some n) \<Rightarrow>
          (Inl e,
           (issue (WriteFile p d) w)
             \<lparr>files := (files w)(p \<mapsto> \<lparr>file_bytes = take n (utf8_encode d), file_mtimeMs = t\<rparr>)\<rparr>))"

definition rename ::
  "js_value option \<Rightarrow> js_string \<Rightarrow> js_string \<Rightarrow> world \<Rightarrow> (js_value + unit) \<times> world" where
  "rename fault src dst w =
     (case fault of
        Some e \<Rightarrow> (Inl e, issue (Rename src dst) w)
      | None \<Rightarrow>
          (case files w src of
             None \<Rightarrow> (Inl (errno ''ENOENT''), issue (Rename src dst) w)
           | Some f \<Rightarrow>
               (Inr (), (issue (Rename src dst) w)\<lparr>files := ((files w)(src := None))(dst \<mapsto> f)\<rparr>)))"

definition unlink ::
  "js_value option \<Rightarrow> js_string \<Rightarrow> world \<Rightarrow> (js_value + unit) \<times> world" where
  "unlink fault p w =
     (case fault of
        Some e \<Rightarrow> (Inl e, issue (Unlink p) w)
      | None \<Rightarrow>
          (case files w p of
             None \<Rightarrow> (Inl (errno ''ENOENT''), issue (Unlink p) w)
           | Some f \<Rightarrow> (Inr (), (issue (Unlink p) w)\<lparr>files := (files w)(p := None)\<rparr>)))"

section \<open>The configuration store\<close>

definition MIHOMO_CONFIG_FILE_PATH :: js_string where
  "MIHOMO_CONFIG_FILE_PATH = js_str ''/opt/mihomo/config.yaml''"

definition MAX_MIHOMO_CONFIG_SIZE_BYTES :: nat where
  "MAX_MIHOMO_CONFIG_SIZE_BYTES = 2 * 1024 * 1024"

datatype MihomoConfigErrorCode =
  NOT_FOUND | PERMISSION_DENIED | INVALID_CONTENT | CONTENT_TOO_LARGE | IO_ERROR

text \<open>
  The error class of the module. Its \<open>name\<close> is the constant \<open>MihomoConfigError\<close>; the
  fields that vary are the kind, the status code and the message.
\<close>

record MihomoConfigError =
  code :: MihomoConfigErrorCode
  statusCode :: nat
  message :: js_string

datatype action = Read | Write

fun action_str :: "action \<Rightarrow> js_string" where
  "action_str Read = js_str ''read''"
| "action_str Write = js_str ''write''"

text \<open>The test \<open>err?.code === c\<close> of a caught value against a string literal.\<close>

definition has_code :: "js_value \<Rightarrow> string \<Rightarrow> bool" where
  "has_code err c = (opt_prop err (js_str ''code'') = String (js_str c))"

definition mapNodeError :: "js_value \<Rightarrow> action \<Rightarrow> MihomoConfigError" where
  "mapNodeError error act =
     (if has_code error ''ENOENT'' then
        \<lparr>code = NOT_FOUND, statusCode = 404, message = js_str ''Mihomo config file not found''\<rparr>
      else if has_code error ''EACCES'' \<or> has_code error ''EPERM'' then
        \<lparr>code = PERMISSION_DENIED, statusCode = 403,
         message = js_str ''Permission denied while trying to '' @ action_str act
                     @ js_str '' Mihomo config file''\<rparr>
      else
        \<lparr>code = IO_ERROR, statusCode = 500,
         message = js_str ''Failed to '' @ action_str act @ js_str '' Mihomo config file''\<rparr>)"

text \<open>
  What a call of \<open>readMihomoConfigFile\<close> meets: the failures imposed on its two storage
  calls, and, since both run under \<open>Promise.all\<close>, which rejection comes first when both
  reject.
\<close>

record read_env =
  readFile_fault :: "js_value option"
  read_stat_fault :: "js_value option"
  stat_rejects_first :: bool

text \<open>
  The results of the two operations. Both operations take the path as a parameter; its
  default, \<open>MIHOMO_CONFIG_FILE_PATH\<close>, is what the handlers call them with.
\<close>

record write_result =
  mtimeMs :: real

record read_result = write_result +
  content :: js_string

definition readMihomoConfigFile ::
  "js_string \<Rightarrow> read_env \<Rightarrow> world \<Rightarrow> (MihomoConfigError + read_result) \<times> world" where
  "readMihomoConfigFile filePath env w =
     (case readFile (readFile_fault env) filePath w of
        (rc, w1) \<Rightarrow>
          (case stat (read_stat_fault env) filePath w1 of
             (rs, w2) \<Rightarrow>
               (case rc of
                  Inr c \<Rightarrow>
                    (case rs of
                       Inr m \<Rightarrow> (Inr \<lparr>mtimeMs = m, content = c\<rparr>, w2)
                     | Inl e \<Rightarrow> (Inl (mapNodeError e Read), w2))
                | Inl e1 \<Rightarrow>
                    (case rs of
                       Inr m \<Rightarrow> (Inl (mapNodeError e1 Read), w2)
                     | Inl e2 \<Rightarrow>
                         (Inl (mapNodeError (if stat_rejects_first env then e2 else e1) Read),
                          w2)))))"

text \<open>
  What a call of \<open>writeMihomoConfigFile\<close> meets: \<open>process.pid\<close>, \<open>Date.now()\<close>, the failures
  imposed on its storage calls, and the modification time the file system stamps on the
  file that \<open>writeFile\<close> writes.
\<close>

record write_env =
  pid :: nat
  now :: int
  writeFile_fault :: "(js_value \<times> nat option) option"
  write_time :: real
  rename_fault :: "js_value option"
  stat_fault :: "js_value option"
  unlink_fault :: "js_value option"

definition tempPath :: "js_string \<Rightarrow> write_env \<Rightarrow> js_string" where
  "tempPath filePath env =
     filePath @ js_str ''.'' @ number_str (int (pid env)) @ js_str ''.'' @ number_str (now env)
       @ js_str ''.tmp''"

text \<open>The \<open>try\<close> block of \<open>writeMihomoConfigFile\<close> with its \<open>catch\<close>.\<close>

definition write_try ::
  "js_string \<Rightarrow> js_string \<Rightarrow> write_env \<Rightarrow> world \<Rightarrow> (MihomoConfigError + write_result) \<times> world" where
  "write_try s filePath env w =
     (case writeFile (writeFile_fault env) (write_time env) (tempPath filePath env) s w of
        (Inl e, w1) \<Rightarrow> (Inl (mapNodeError e Write), w1)
      | (Inr u, w1) \<Rightarrow>
          (case rename (rename_fault env) (tempPath filePath env) filePath w1 of
             (Inl e, w2) \<Rightarrow> (Inl (mapNodeError e Write), w2)
           | (Inr u, w2) \<Rightarrow>
               (case stat (stat_fault env) filePath w2 of
                  (Inl e, w3) \<Rightarrow> (Inl (mapNodeError e Write), w3)
                | (Inr m, w3) \<Rightarrow> (Inr \<lparr>mtimeMs = m\<rparr>, w3))))"

text \<open>
  The whole function: the two guards, then the \<open>try\<close> block, then the \<open>finally\<close> block,
  whose \<open>unlink\<close> has its rejection caught and dropped.
\<close>

definition writeMihomoConfigFile ::
  "js_value \<Rightarrow> js_string \<Rightarrow> write_env \<Rightarrow> world \<Rightarrow> (MihomoConfigError + write_result) \<times> world" where
  "writeMihomoConfigFile content_arg filePath env w =
     (if typeof content_arg \<noteq> ''string'' then
        (Inl \<lparr>code = INVALID_CONTENT, statusCode = 400,
              message = js_str ''`content` must be a string''\<rparr>, w)
      else if byteLength (as_string content_arg) > MAX_MIHOMO_CONFIG_SIZE_BYTES then
        (Inl \<lparr>code = CONTENT_TOO_LARGE, statusCode = 413,
              message = js_str ''Config content exceeds ''
                          @ number_str (int MAX_MIHOMO_CONFIG_SIZE_BYTES) @ js_str '' bytes''\<rparr>, w)
      else
        (case write_try (as_string content_arg) filePath env w of
           (r, w1) \<Rightarrow>
             (case unlink (unlink_fault env) (tempPath filePath env) w1 of
                (u, w2) \<Rightarrow> (r, w2))))"

section \<open>The HTTP handlers\<close>

text \<open>
  \<open>createError\<close> of the server framework builds the error that the transport answers
  with: a status code, a status message and, for a configuration error, its kind as data.
\<close>

record H3Error =
  h3_statusCode :: nat
  h3_statusMessage :: js_string
  h3_data :: "MihomoConfigErrorCode option"

definition createError :: "nat \<Rightarrow> js_string \<Rightarrow> MihomoConfigErrorCode option \<Rightarrow> H3Error" where
  "createError sc sm d = \<lparr>h3_statusCode = sc, h3_statusMessage = sm, h3_data = d\<rparr>"

text \<open>What a \<open>catch\<close> clause of a handler can receive.\<close>

datatype exn = ConfigError MihomoConfigError | H3 H3Error | Thrown js_value

record put_response = write_result +
  ok :: bool

text \<open>
  The \<open>PUT\<close> handler. \<open>readBody\<close> either rejects or yields the parsed body; the handler
  writes to the default path.
\<close>

definition put_try ::
  "(js_value + js_value) \<Rightarrow> write_env \<Rightarrow> world \<Rightarrow> (exn + put_response) \<times> world" where
  "put_try body_read env w =
     (case body_read of
        Inl e \<Rightarrow> (Inl (Thrown e), w)
      | Inr body \<Rightarrow>
          (if \<not> truthy body \<or> typeof (get_prop body (js_str ''content'')) \<noteq> ''string'' then
             (Inl (ConfigError \<lparr>code = INVALID_CONTENT, statusCode = 400,
                     message = js_str ''`content` must be a string''\<rparr>), w)
           else
             (case writeMihomoConfigFile (get_prop body (js_str ''content''))
                     MIHOMO_CONFIG_FILE_PATH env w of
                (Inl e, w1) \<Rightarrow> (Inl (ConfigError e), w1)
              | (Inr r, w1) \<Rightarrow> (Inr \<lparr>mtimeMs = mtimeMs r, ok = True\<rparr>, w1))))"

definition mihomo_config_put ::
  "(js_value + js_value) \<Rightarrow> write_env \<Rightarrow> world \<Rightarrow> (H3Error + put_response) \<times> world" where
  "mihomo_config_put body_read env w =
     (case put_try body_read env w of
        (Inr r, w1) \<Rightarrow> (Inr r, w1)
      | (Inl (ConfigError e), w1) \<Rightarrow>
          (Inl (createError (statusCode e) (message e) (Some (code e))), w1)
      | (Inl other, w1) \<Rightarrow>
          (Inl (createError 500 (js_str ''Unexpected error while writing Mihomo config file'') None),
           w1))"

text \<open>
  The handler that fetches a remote text. Of the response it reads \<open>ok\<close>, \<open>status\<close>, the
  \<open>content-length\<close> header (\<open>null\<close> when absent) and \<open>text()\<close>, which may reject. The
  conversions \<open>Number(s)\<close> and the rendering of a value inside a template literal are the
  language's own, taken as given.
\<close>

record response =
  resp_ok :: bool
  resp_status :: nat
  resp_content_length :: "js_string option"
  resp_text :: "js_value + js_string"

definition startsWith :: "js_string \<Rightarrow> js_string \<Rightarrow> bool" where
  "startsWith s p = (take (length p) s = p)"

definition type_error :: js_value where
  "type_error = Object [(js_str ''name'', String (js_str ''TypeError''))]"

definition fetch_try ::
  "(js_string \<Rightarrow> js_number) \<Rightarrow> (js_value + response) \<Rightarrow> exn + js_string" where
  "fetch_try toNumber fetched =
     (case fetched of
        Inl e \<Rightarrow> Inl (Thrown e)
      | Inr r \<Rightarrow>
          (if \<not> resp_ok r then
             Inl (H3 (createError (resp_status r)
                    (js_str ''Remote server responded with '' @ number_str (int (resp_status r)))
                    None))
           else if (case resp_content_length r of
                      None \<Rightarrow> False
                    | Some contentLength \<Rightarrow>
                        truthy (String contentLength)
                        \<and> number_gt (toNumber contentLength) (real MAX_MIHOMO_CONFIG_SIZE_BYTES)) then
             Inl (H3 (createError 413
                    (js_str ''Remote file exceeds '' @ number_str (int MAX_MIHOMO_CONFIG_SIZE_BYTES)
                       @ js_str '' bytes limit'')
                    None))
           else
             (case resp_text r of
                Inl e \<Rightarrow> Inl (Thrown e)
              | Inr c \<Rightarrow>
                  (if length (utf8_encode c) > MAX_MIHOMO_CONFIG_SIZE_BYTES then
                     Inl (H3 (createError 413
                            (js_str ''Remote file exceeds ''
                               @ number_str (int MAX_MIHOMO_CONFIG_SIZE_BYTES)
                               @ js_str '' bytes limit'')
                            None))
                   else Inr c))))"

text \<open>The \<open>statusCode\<close> and the \<open>message\<close> the \<open>catch\<close> clause reads off what it caught.\<close>

fun exn_statusCode :: "exn \<Rightarrow> js_value" where
  "exn_statusCode (H3 e) = Number (Finite (real (h3_statusCode e)))"
| "exn_statusCode (ConfigError e) = Number (Finite (real (statusCode e)))"
| "exn_statusCode (Thrown v) = get_prop v (js_str ''statusCode'')"

fun exn_message :: "exn \<Rightarrow> js_value" where
  "exn_message (H3 e) = String (h3_statusMessage e)"
| "exn_message (ConfigError e) = String (message e)"
| "exn_message (Thrown v) = get_prop v (js_str ''message'')"

definition fetch_catch :: "(js_value \<Rightarrow> js_string) \<Rightarrow> exn \<Rightarrow> exn" where
  "fetch_catch toString err =
     (if err = Thrown Null \<or> err = Thrown Undefined then Thrown type_error
      else if truthy (exn_statusCode err) then err
      else H3 (createError 502
             (js_str ''Failed to fetch from remote URL: '' @ toString (exn_message err)) None))"

definition fetch_remote_handler ::
  "(js_string \<Rightarrow> js_number) \<Rightarrow> (js_value \<Rightarrow> js_string) \<Rightarrow> js_value \<Rightarrow> (js_value + response)
     \<Rightarrow> exn + js_string" where
  "fetch_remote_handler toNumber toString url fetched =
     (if \<not> truthy url \<or> typeof url \<noteq> ''string'' then
        Inl (H3 (createError 400 (js_str ''Missing required query parameter: url'') None))
      else if \<not> startsWith (as_string url) (js_str ''http://'')
            \<and> \<not> startsWith (as_string url) (js_str ''https://'') then
        Inl (H3 (createError 400 (js_str ''URL must start with http:// or https://'') None))
      else
        (case fetch_try toNumber fetched of
           Inl err \<Rightarrow> Inl (fetch_catch toString err)
         | Inr c \<Rightarrow> Inr c))"

section \<open>Notions used in the statements\<close>

text \<open>
  The storage calls that an accepted write issues, in order: the write of the temporary
  file, then the rename unless the write failed, then the \<open>stat\<close> unless the rename failed,
  and last the removal of the temporary file.
\<close>

definition storage_calls :: "js_string \<Rightarrow> js_string \<Rightarrow> write_env \<Rightarrow> fs_call list" where
  "storage_calls s p env =
     (case writeFile_fault env of
        Some f \<Rightarrow> [WriteFile (tempPath p env) s]
      | None \<Rightarrow>
          (case rename_fault env of
             Some e \<Rightarrow> [WriteFile (tempPath p env) s, Rename (tempPath p env) p]
           | None \<Rightarrow> [WriteFile (tempPath p env) s, Rename (tempPath p env) p, Stat p]))
     @ [Unlink (tempPath p env)]"

text \<open>A Unicode scalar value: a code point that is not a surrogate.\<close>

definition scalar :: "nat \<Rightarrow> bool" where
  "scalar c = (c < 0x110000 \<and> (c < 0xD800 \<or> 0xDFFF < c))"

section \<open>Inputs used in the examples\<close>

definition oversized :: js_string where
  "oversized = replicate (MAX_MIHOMO_CONFIG_SIZE_BYTES + 1) 0x61"

definition at_limit :: js_string where
  "at_limit = replicate MAX_MIHOMO_CONFIG_SIZE_BYTES 0x61"

definition new_content :: js_string where
  "new_content = js_str ''port: 7891\<newline>''"

definition lone_surrogate :: js_string where
  "lone_surrogate = [0xD800]"

definition example_env :: write_env where
  "example_env =
     \<lparr>pid = 4242, now = 1700000000000, writeFile_fault = None, write_time = 1700000000123,
      rename_fault = None, stat_fault = None, unlink_fault = None\<rparr>"

definition rename_fails_env :: write_env where
  "rename_fails_env = example_env\<lparr>rename_fault := Some (errno ''EACCES'')\<rparr>"

definition stat_fails_env :: write_env where
  "stat_fails_env = example_env\<lparr>stat_fault := Some (errno ''EIO'')\<rparr>"

definition cleanup_fails_env :: write_env where
  "cleanup_fails_env = example_env\<lparr>unlink_fault := Some (errno ''EBUSY'')\<rparr>"

definition example_read_env :: read_env where
  "example_read_env =
     \<lparr>readFile_fault = None, read_stat_fault = None, stat_rejects_first = False\<rparr>"

definition denied_read_env :: read_env where
  "denied_read_env =
     \<lparr>readFile_fault = Some (errno ''EACCES''), read_stat_fault = None,
      stat_rejects_first = False\<rparr>"

text \<open>Reads that meet a component of the path that is not a directory.\<close>

definition blocked_read_env :: read_env where
  "blocked_read_env =
     \<lparr>readFile_fault = Some (errno ''ENOTDIR''), read_stat_fault = Some (errno ''ENOTDIR''),
      stat_rejects_first = False\<rparr>"

definition example_world :: world where
  "example_world =
     \<lparr>files = [MIHOMO_CONFIG_FILE_PATH \<mapsto>
                 \<lparr>file_bytes = utf8_encode (js_str ''port: 7890\<newline>''),
                  file_mtimeMs = 1600000000000\<rparr>],
      calls = []\<rparr>"

text \<open>A world whose configuration file carries a modification time in the future.\<close>

definition future_world :: world where
  "future_world =
     \<lparr>files = [MIHOMO_CONFIG_FILE_PATH \<mapsto>
                 \<lparr>file_bytes = utf8_encode (js_str ''port: 7890\<newline>''),
                  file_mtimeMs = 1800000000000\<rparr>],
      calls = []\<rparr>"

definition empty_world :: world where
  "empty_world = \<lparr>files = Map.empty, calls = []\<rparr>"

text \<open>\<open>Number(s)\<close> on a string of decimal digits, the form a \<open>content-length\<close> header has.\<close>

definition is_digit :: "16 word \<Rightarrow> bool" where
  "is_digit d = (0x30 \<le> d \<and> d \<le> 0x39)"

definition digits_number :: "js_string \<Rightarrow> js_number" where
  "digits_number s =
     (if list_all is_digit s then Finite (real (foldl (\<lambda>a d. 10 * a + (unat d - 48)) 0 s))
      else NaN)"

definition example_url :: js_value where
  "example_url = String (js_str ''https://example.com/config.yaml'')"

definition declared_large :: response where
  "declared_large =
     \<lparr>resp_ok = True, resp_status = 200, resp_content_length = Some (js_str ''2097153''),
      resp_text = Inr (js_str ''port: 7890\<newline>'')\<rparr>"

definition undeclared_large :: response where
  "undeclared_large =
     \<lparr>resp_ok = True, resp_status = 200, resp_content_length = None,
      resp_text = Inr oversized\<rparr>"

section \<open>Auxiliary facts\<close>

subsection \<open>One decoder step at a time\<close>

lemma unat_byte: "x < 256 \<Longrightarrow> unat (of_nat x :: 8 word) = x"
  by (simp add: unat_of_nat)

lemma mod_offset: "a mod m = 0 \<Longrightarrow> x < m \<Longrightarrow> (a + x) mod m = (x::nat)"
proof -
  assume a: "a mod m = 0" and x: "x < m"
  have "(a + x) mod m = (a mod m + x) mod m"
    by (simp only: mod_add_left_eq)
  with a x show ?thesis by simp
qed

lemma lead_mod:
  "x < 0x20 \<Longrightarrow> (0xC0 + x) mod 0x20 = (x::nat)"
  "y < 0x10 \<Longrightarrow> (0xE0 + y) mod 0x10 = (y::nat)"
  "z < 8 \<Longrightarrow> (0xF0 + z) mod 8 = (z::nat)"
  "t < 0x40 \<Longrightarrow> (0x80 + t) mod 0x40 = (t::nat)"
  by (simp_all add: mod_offset)

lemma start_1:
  "unat b \<le> 0x7F \<Longrightarrow>
   utf8_decoder 0 cp lo hi (b # bs) = unat b # utf8_decoder 0 0 0x80 0xBF bs"
  by simp

lemma start_2:
  "0xC2 \<le> unat b \<Longrightarrow> unat b \<le> 0xDF \<Longrightarrow>
   utf8_decoder 0 cp lo hi (b # bs) = utf8_decoder 1 (unat b mod 0x20) 0x80 0xBF bs"
  by simp

lemma start_3:
  "0xE0 \<le> unat b \<Longrightarrow> unat b \<le> 0xEF \<Longrightarrow>
   utf8_decoder 0 cp lo hi (b # bs) =
     utf8_decoder 2 (unat b mod 0x10) (if unat b = 0xE0 then 0xA0 else 0x80)
       (if unat b = 0xED then 0x9F else 0xBF) bs"
  by simp

lemma start_4:
  "0xF0 \<le> unat b \<Longrightarrow> unat b \<le> 0xF4 \<Longrightarrow>
   utf8_decoder 0 cp lo hi (b # bs) =
     utf8_decoder 3 (unat b mod 8) (if unat b = 0xF0 then 0x90 else 0x80)
       (if unat b = 0xF4 then 0x8F else 0xBF) bs"
  by simp

lemma cont_1:
  "lo \<le> unat b \<Longrightarrow> unat b \<le> hi \<Longrightarrow>
   utf8_decoder (Suc 0) cp lo hi (b # bs) =
     (cp * 0x40 + unat b mod 0x40) # utf8_decoder 0 0 0x80 0xBF bs"
  by simp

lemma cont_2:
  "lo \<le> unat b \<Longrightarrow> unat b \<le> hi \<Longrightarrow>
   utf8_decoder 2 cp lo hi (b # bs) =
     utf8_decoder 1 (cp * 0x40 + unat b mod 0x40) 0x80 0xBF bs"
  by simp

lemma cont_3:
  "lo \<le> unat b \<Longrightarrow> unat b \<le> hi \<Longrightarrow>
   utf8_decoder 3 cp lo hi (b # bs) =
     utf8_decoder 2 (cp * 0x40 + unat b mod 0x40) 0x80 0xBF bs"
  by simp

declare utf8_decoder.simps [simp del]

subsection \<open>Decoding what was encoded\<close>

lemma decoder_1: 
  "c < 0x80 \<Longrightarrow> utf8_decoder 0 0 0x80 0xBF (encode_cp c @ bs) = c # utf8_decoder 0 0 0x80 0xBF bs"
  by (simp add: encode_cp_def unat_byte start_1)

lemma decoder_2:
  assumes c: "0x80 \<le> c" "c < 0x800"
  shows "utf8_decoder 0 0 0x80 0xBF (encode_cp c @ bs) = c # utf8_decoder 0 0 0x80 0xBF bs"
proof -
  define x where "x = c div 0x40"
  define t where "t = c mod 0x40"
  define b1 :: "8 word" where "b1 = of_nat (0xC0 + x)"
  define b2 :: "8 word" where "b2 = of_nat (0x80 + t)"
  have x: "2 \<le> x" "x < 0x20" using c unfolding x_def by linarith+
  have t: "t < 0x40" unfolding t_def by simp
  have c_eq: "x * 0x40 + t = c" unfolding x_def t_def by simp
  have u1: "unat b1 = 0xC0 + x" unfolding b1_def by (rule unat_byte) (use x in simp)
  have u2: "unat b2 = 0x80 + t" unfolding b2_def by (rule unat_byte) (use t in simp)
  have e: "encode_cp c = [b1, b2]"
    using c unfolding encode_cp_def x_def t_def b1_def b2_def by simp
  have "utf8_decoder 0 0 0x80 0xBF (b1 # b2 # bs) = utf8_decoder 1 x 0x80 0xBF (b2 # bs)"
    using x by (simp add: start_2 u1 lead_mod)
  also have "\<dots> = (x * 0x40 + t) # utf8_decoder 0 0 0x80 0xBF bs"
    using t by (simp add: cont_1 u2 lead_mod)
  finally show ?thesis by (simp add: e c_eq)
qed

lemma decoder_3:
  assumes c: "0x800 \<le> c" "c < 0x10000" "c < 0xD800 \<or> 0xDFFF < c"
  shows "utf8_decoder 0 0 0x80 0xBF (encode_cp c @ bs) = c # utf8_decoder 0 0 0x80 0xBF bs"
proof -
  define q where "q = c div 0x40"
  define y where "y = c div 0x1000"
  define m where "m = c div 0x40 mod 0x40"
  define t where "t = c mod 0x40"
  define b1 :: "8 word" where "b1 = of_nat (0xE0 + y)"
  define b2 :: "8 word" where "b2 = of_nat (0x80 + m)"
  define b3 :: "8 word" where "b3 = of_nat (0x80 + t)"
  have "c div 0x1000 = c div 0x40 div 0x40"
    by (simp add: div_mult2_eq [symmetric])
  then have q_eq: "q = y * 0x40 + m" unfolding q_def y_def m_def by simp
  have c_eq: "c = q * 0x40 + t" unfolding q_def t_def by simp
  have y: "y < 0x10" using c unfolding y_def by linarith
  have m: "m < 0x40" unfolding m_def by simp
  have t: "t < 0x40" unfolding t_def by simp
  have lo: "y = 0 \<Longrightarrow> 0x20 \<le> m" using c q_eq c_eq t by linarith
  have hi: "m < 0x20" if "y = 0xD"
  proof -
    have "c \<le> 0xDFFF" using that q_eq c_eq t m by linarith
    with c(3) have "c < 0xD800" by linarith
    then show ?thesis using that q_eq c_eq by linarith
  qed
  have u1: "unat b1 = 0xE0 + y" unfolding b1_def by (rule unat_byte) (use y in simp)
  have u2: "unat b2 = 0x80 + m" unfolding b2_def by (rule unat_byte) (use m in simp)
  have u3: "unat b3 = 0x80 + t" unfolding b3_def by (rule unat_byte) (use t in simp)
  have e: "encode_cp c = [b1, b2, b3]"
    using c unfolding encode_cp_def y_def m_def t_def b1_def b2_def b3_def by simp
  have "utf8_decoder 0 0 0x80 0xBF (b1 # b2 # b3 # bs) =
        utf8_decoder 2 y (if y = 0 then 0xA0 else 0x80) (if y = 0xD then 0x9F else 0xBF)
          (b2 # b3 # bs)"
    using y by (simp add: start_3 u1 lead_mod)
  also have "\<dots> = utf8_decoder 1 (y * 0x40 + m) 0x80 0xBF (b3 # bs)"
  proof -
    have "(if y = 0 then 0xA0 else 0x80) \<le> unat b2"
      using lo by (auto simp: u2)
    moreover have "unat b2 \<le> (if y = 0xD then 0x9F else 0xBF)"
      using hi m by (auto simp: u2)
    ultimately show ?thesis
      using m cont_2 [of _ b2 _ y "b3 # bs"] by (simp add: u2 lead_mod)
  qed
  also have "\<dots> = ((y * 0x40 + m) * 0x40 + t) # utf8_decoder 0 0 0x80 0xBF bs"
    using t by (simp add: cont_1 u3 lead_mod)
  also have "(y * 0x40 + m) * 0x40 + t = c"
    using q_eq c_eq by simp
  finally show ?thesis by (simp add: e)
qed

lemma decoder_4:
  assumes c: "0x10000 \<le> c" "c < 0x110000"
  shows "utf8_decoder 0 0 0x80 0xBF (encode_cp c @ bs) = c # utf8_decoder 0 0 0x80 0xBF bs"
proof -
  define q where "q = c div 0x40"
  define r where "r = c div 0x1000"
  define z where "z = c div 0x40000"
  define n where "n = c div 0x1000 mod 0x40"
  define m where "m = c div 0x40 mod 0x40"
  define t where "t = c mod 0x40"
  define b1 :: "8 word" where "b1 = of_nat (0xF0 + z)"
  define b2 :: "8 word" where "b2 = of_nat (0x80 + n)"
  define b3 :: "8 word" where "b3 = of_nat (0x80 + m)"
  define b4 :: "8 word" where "b4 = of_nat (0x80 + t)"
  have "c div 0x1000 = c div 0x40 div 0x40"
    by (simp add: div_mult2_eq [symmetric])
  then have q_eq: "q = r * 0x40 + m" unfolding q_def r_def m_def by simp
  have "c div 0x40000 = c div 0x1000 div 0x40"
    by (simp add: div_mult2_eq [symmetric])
  then have r_eq: "r = z * 0x40 + n" unfolding r_def z_def n_def by simp
  have c_eq: "c = q * 0x40 + t" unfolding q_def t_def by simp
  have z: "z \<le> 4" using c unfolding z_def by linarith
  have n: "n < 0x40" unfolding n_def by simp
  have m: "m < 0x40" unfolding m_def by simp
  have t: "t < 0x40" unfolding t_def by simp
  have lo: "z = 0 \<Longrightarrow> 0x10 \<le> n" using c q_eq r_eq c_eq t m by linarith
  have hi: "z = 4 \<Longrightarrow> n < 0x10" using c q_eq r_eq c_eq t m by linarith
  have u1: "unat b1 = 0xF0 + z" unfolding b1_def by (rule unat_byte) (use z in simp)
  have u2: "unat b2 = 0x80 + n" unfolding b2_def by (rule unat_byte) (use n in simp)
  have u3: "unat b3 = 0x80 + m" unfolding b3_def by (rule unat_byte) (use m in simp)
  have u4: "unat b4 = 0x80 + t" unfolding b4_def by (rule unat_byte) (use t in simp)
  have e: "encode_cp c = [b1, b2, b3, b4]"
    using c unfolding encode_cp_def z_def n_def m_def t_def b1_def b2_def b3_def b4_def by simp
  have "utf8_decoder 0 0 0x80 0xBF (b1 # b2 # b3 # b4 # bs) =
        utf8_decoder 3 z (if z = 0 then 0x90 else 0x80) (if z = 4 then 0x8F else 0xBF)
          (b2 # b3 # b4 # bs)"
    using z by (simp add: start_4 u1 lead_mod)
  also have "\<dots> = utf8_decoder 2 (z * 0x40 + n) 0x80 0xBF (b3 # b4 # bs)"
  proof -
    have "(if z = 0 then 0x90 else 0x80) \<le> unat b2"
      using lo by (auto simp: u2)
    moreover have "unat b2 \<le> (if z = 4 then 0x8F else 0xBF)"
      using hi n by (auto simp: u2)
    ultimately show ?thesis
      using n cont_3 [of _ b2 _ z "b3 # b4 # bs"] by (simp add: u2 lead_mod)
  qed
  also have "\<dots> = utf8_decoder 1 ((z * 0x40 + n) * 0x40 + m) 0x80 0xBF (b4 # bs)"
    using m by (simp add: cont_2 u3 lead_mod)
  also have "\<dots> = (((z * 0x40 + n) * 0x40 + m) * 0x40 + t) # utf8_decoder 0 0 0x80 0xBF bs"
    using t by (simp add: cont_1 u4 lead_mod)
  also have "((z * 0x40 + n) * 0x40 + m) * 0x40 + t = c"
    using q_eq r_eq c_eq by simp
  finally show ?thesis by (simp add: e)
qed

lemma decoder_encode_cp:
  "scalar c \<Longrightarrow>
   utf8_decoder 0 0 0x80 0xBF (encode_cp c @ bs) = c # utf8_decoder 0 0 0x80 0xBF bs"
  using decoder_1 [of c bs] decoder_2 [of c bs] decoder_3 [of c bs] decoder_4 [of c bs]
  unfolding scalar_def by linarith

lemma decoder_encode_all:
  "list_all scalar cs \<Longrightarrow> utf8_decoder 0 0 0x80 0xBF (concat (map encode_cp cs)) = cs"
  by (induction cs) (simp_all add: decoder_encode_cp utf8_decoder.simps(1))

lemma is_high_unat: "is_high u = (0xD800 \<le> unat u \<and> unat u \<le> 0xDBFF)"
  by (simp add: is_high_def word_le_nat_alt)

lemma is_low_unat: "is_low u = (0xDC00 \<le> unat u \<and> unat u \<le> 0xDFFF)"
  by (simp add: is_low_def word_le_nat_alt)

lemma unat_unit: "unat (u :: 16 word) < 0x10000"
  using unsigned_less [of u, where ?'a = nat] by simp

lemma pair_value:
  assumes "is_high u" "is_low v"
  shows "scalar (0x10000 + (unat u - 0xD800) * 0x400 + (unat v - 0xDC00))"
    and "units_of_cp (0x10000 + (unat u - 0xD800) * 0x400 + (unat v - 0xDC00)) = [u, v]"
proof -
  define a where "a = unat u - 0xD800"
  define b where "b = unat v - 0xDC00"
  have a: "a < 0x400" "0xD800 + a = unat u"
    using assms(1) unfolding a_def is_high_unat by linarith+
  have b: "b < 0x400" "0xDC00 + b = unat v"
    using assms(2) unfolding b_def is_low_unat by linarith+
  show "scalar (0x10000 + (unat u - 0xD800) * 0x400 + (unat v - 0xDC00))"
    using a(1) b(1) unfolding scalar_def a_def [symmetric] b_def [symmetric] by linarith
  have d: "(a * 0x400 + b) div 0x400 = a" "(a * 0x400 + b) mod 0x400 = b"
    using b(1) by simp_all
  have "units_of_cp (0x10000 + a * 0x400 + b) =
          [of_nat (0xD800 + a), of_nat (0xDC00 + b)]"
    unfolding units_of_cp_def using d by (simp add: add.assoc)
  also have "\<dots> = [u, v]"
    unfolding a(2) b(2) by simp
  finally show "units_of_cp (0x10000 + (unat u - 0xD800) * 0x400 + (unat v - 0xDC00)) = [u, v]"
    unfolding a_def b_def .
qed

lemma plain_value:
  assumes "\<not> is_high u" "\<not> is_low u"
  shows "scalar (unat u)" and "units_of_cp (unat u) = [u]"
proof -
  show "scalar (unat u)"
    using assms unat_unit [of u] unfolding scalar_def is_high_unat is_low_unat by linarith
  show "units_of_cp (unat u) = [u]"
    using unat_unit [of u] by (simp add: units_of_cp_def)
qed

lemma replacement_scalar: "scalar 0xFFFD"
  by (simp add: scalar_def)

lemma code_points_scalar: "list_all scalar (code_points s)"
  by (induction s rule: code_points.induct)
     (simp_all add: pair_value(1) plain_value(1) replacement_scalar)

lemma units_code_points:
  "well_formed s \<Longrightarrow> concat (map units_of_cp (code_points s)) = s"
  by (induction s rule: code_points.induct)
     (auto simp: pair_value(2) plain_value(2))

lemma utf8_roundtrip: "well_formed s \<Longrightarrow> utf8_decode (utf8_encode s) = s"
  by (simp add: utf8_decode_def utf8_encode_def decoder_encode_all code_points_scalar
        units_code_points)

subsection \<open>Lengths and the example strings\<close>

lemma code_points_plain:
  "\<not> is_high a \<Longrightarrow> \<not> is_low a \<Longrightarrow> code_points (a # us) = unat a # code_points us"
  by (cases us) simp_all

lemma code_points_replicate:
  "\<not> is_high a \<Longrightarrow> \<not> is_low a \<Longrightarrow> code_points (replicate n a) = replicate n (unat a)"
  by (induction n) (simp_all add: code_points_plain)

lemma byteLength_replicate_ascii:
  assumes a: "a < 0x80"
  shows "byteLength (replicate n a) = n"
proof -
  from a have s: "\<not> is_high a" "\<not> is_low a"
    by (simp_all add: is_high_def is_low_def word_less_def word_le_def)
  from a have u: "unat a < 0x80"
    by (simp add: word_less_nat_alt)
  have "length (concat (map encode_cp (replicate n (unat a)))) = n"
    using u by (induction n) (simp_all add: encode_cp_def)
  then show ?thesis
    by (simp add: byteLength_def utf8_encode_def code_points_replicate s)
qed

lemma byteLength_oversized: "byteLength oversized = MAX_MIHOMO_CONFIG_SIZE_BYTES + 1"
  unfolding oversized_def by (rule byteLength_replicate_ascii) simp

lemma byteLength_at_limit: "byteLength at_limit = MAX_MIHOMO_CONFIG_SIZE_BYTES"
  unfolding at_limit_def by (rule byteLength_replicate_ascii) simp

lemma new_content_small: "byteLength new_content \<le> MAX_MIHOMO_CONFIG_SIZE_BYTES"
  by (simp add: new_content_def byteLength_def utf8_encode_def js_str_def is_high_def is_low_def
        encode_cp_def MAX_MIHOMO_CONFIG_SIZE_BYTES_def)

lemma new_content_well_formed: "well_formed new_content"
  by (simp add: new_content_def js_str_def is_high_def is_low_def)

lemma lone_small: "byteLength lone_surrogate \<le> MAX_MIHOMO_CONFIG_SIZE_BYTES"
  by (simp add: lone_surrogate_def byteLength_def utf8_encode_def is_high_def
        encode_cp_def MAX_MIHOMO_CONFIG_SIZE_BYTES_def)

lemma lone_encoded: "utf8_encode lone_surrogate = [0xEF, 0xBF, 0xBD]"
  by (simp add: lone_surrogate_def utf8_encode_def is_high_def encode_cp_def)

lemma lone_decoded: "utf8_decode (utf8_encode lone_surrogate) = [0xFFFD]"
proof -
  have "utf8_decoder 0 0 0x80 0xBF [0xEF, 0xBF, 0xBD] = utf8_decoder 2 0xF 0x80 0xBF [0xBF, 0xBD]"
    by (simp add: start_3)
  also have "\<dots> = utf8_decoder 1 0x3FF 0x80 0xBF [0xBD]"
    by (simp add: cont_2)
  also have "\<dots> = [0xFFFD]"
    by (simp add: cont_1 utf8_decoder.simps(1))
  finally show ?thesis
    by (simp add: utf8_decode_def lone_encoded units_of_cp_def)
qed

lemma decode_example: "utf8_decode (utf8_encode (js_str ''port: 7890\<newline>'')) = js_str ''port: 7890\<newline>''"
  by (simp add: utf8_roundtrip js_str_def is_high_def is_low_def)

lemma max_message:
  "js_str ''Config content exceeds '' @ number_str (int MAX_MIHOMO_CONFIG_SIZE_BYTES)
     @ js_str '' bytes'' = js_str ''Config content exceeds 2097152 bytes''"
  by (simp add: MAX_MIHOMO_CONFIG_SIZE_BYTES_def number_str_def js_str_def)

lemma limit_message:
  "js_str ''Remote file exceeds '' @ number_str (int MAX_MIHOMO_CONFIG_SIZE_BYTES)
     @ js_str '' bytes limit'' = js_str ''Remote file exceeds 2097152 bytes limit''"
  by (simp add: MAX_MIHOMO_CONFIG_SIZE_BYTES_def number_str_def js_str_def)

subsection \<open>The classifier and the storage calls\<close>

lemma mapNodeError_kinds:
  "code (mapNodeError e a) \<in> {NOT_FOUND, PERMISSION_DENIED, IO_ERROR}"
  "\<not> has_code e ''ENOENT'' \<Longrightarrow> code (mapNodeError e a) \<in> {PERMISSION_DENIED, IO_ERROR}"
  by (auto simp: mapNodeError_def)

lemma mapNodeError_code:
  "code (mapNodeError e a) =
     (if has_code e ''ENOENT'' then NOT_FOUND
      else if has_code e ''EACCES'' \<or> has_code e ''EPERM'' then PERMISSION_DENIED
      else IO_ERROR)"
  "statusCode (mapNodeError e a) =
     (if has_code e ''ENOENT'' then 404
      else if has_code e ''EACCES'' \<or> has_code e ''EPERM'' then 403
      else 500)"
  by (simp_all add: mapNodeError_def)

lemma mapNodeError_not_too_large: "code (mapNodeError e a) \<noteq> CONTENT_TOO_LARGE"
  by (simp add: mapNodeError_def)

lemma files_issue [simp]: "files (issue c w) = files w"
  by (simp add: issue_def)

lemma calls_issue [simp]: "calls (issue c w) = calls w @ [c]"
  by (simp add: issue_def)

lemma unlink_other: "q \<noteq> p \<Longrightarrow> files (snd (unlink f p w)) q = files w q"
  by (simp add: unlink_def split: option.splits)

lemma unlink_calls: "calls (snd (unlink f p w)) = calls w @ [Unlink p]"
  by (simp add: unlink_def split: option.splits)

lemma unlink_removes: "files (snd (unlink None p w)) p = None"
  by (simp add: unlink_def split: option.splits)

subsection \<open>The write, step by step\<close>

lemma temp_neq: "tempPath p env \<noteq> p"
  by (simp add: tempPath_def js_str_def)

lemma write_invalid:
  "typeof v \<noteq> ''string'' \<Longrightarrow>
   writeMihomoConfigFile v filePath env w =
     (Inl \<lparr>code = INVALID_CONTENT, statusCode = 400,
           message = js_str ''`content` must be a string''\<rparr>, w)"
  by (simp add: writeMihomoConfigFile_def)

lemma write_oversized:
  "byteLength s > MAX_MIHOMO_CONFIG_SIZE_BYTES \<Longrightarrow>
   writeMihomoConfigFile (String s) filePath env w =
     (Inl \<lparr>code = CONTENT_TOO_LARGE, statusCode = 413,
           message = js_str ''Config content exceeds 2097152 bytes''\<rparr>, w)"
  by (simp add: writeMihomoConfigFile_def max_message)

lemma write_accepted:
  "byteLength s \<le> MAX_MIHOMO_CONFIG_SIZE_BYTES \<Longrightarrow>
   writeMihomoConfigFile (String s) p env w =
     (fst (write_try s p env w),
      snd (unlink (unlink_fault env) (tempPath p env) (snd (write_try s p env w))))"
  by (simp add: writeMihomoConfigFile_def split: prod.splits)

lemma typeof_string: "typeof v = ''string'' \<Longrightarrow> v = String (as_string v)"
  by (cases v) simp_all

text \<open>The \<open>try\<close> block, by the step at which it ends.\<close>

lemma write_try_target:
  "files (snd (write_try s p env w)) p =
     (if writeFile_fault env = None \<and> rename_fault env = None
      then Some \<lparr>file_bytes = utf8_encode s, file_mtimeMs = write_time env\<rparr>
      else files w p)"
  using temp_neq [of p env]
  by (auto simp: write_try_def writeFile_def rename_def stat_def
           split: option.splits prod.splits sum.splits)

lemma write_try_result:
  "fst (write_try s p env w) =
     (case writeFile_fault env of
        Some (e, n) \<Rightarrow> Inl (mapNodeError e Write)
      | None \<Rightarrow>
         (case rename_fault env of
            Some e \<Rightarrow> Inl (mapNodeError e Write)
          | None \<Rightarrow>
             (case stat_fault env of
                Some e \<Rightarrow> Inl (mapNodeError e Write)
              | None \<Rightarrow> Inr \<lparr>mtimeMs = write_time env\<rparr>)))"
  using temp_neq [of p env]
  by (auto simp: write_try_def writeFile_def rename_def stat_def
           split: option.splits prod.splits sum.splits)

lemma write_try_calls_exact:
  "calls (snd (write_try s p env w)) @ [Unlink (tempPath p env)] = calls w @ storage_calls s p env"
  by (auto simp: write_try_def writeFile_def rename_def stat_def storage_calls_def
           split: option.splits prod.splits sum.splits)

lemma write_try_not_too_large:
  "fst (write_try s p env w) = Inl e \<Longrightarrow> code e \<noteq> CONTENT_TOO_LARGE"
  by (auto simp: write_try_result mapNodeError_not_too_large split: option.splits)

lemma write_accepted_result:
  "byteLength s \<le> MAX_MIHOMO_CONFIG_SIZE_BYTES \<Longrightarrow>
   fst (writeMihomoConfigFile (String s) p env w) =
     (case writeFile_fault env of
        Some (e, n) \<Rightarrow> Inl (mapNodeError e Write)
      | None \<Rightarrow>
         (case rename_fault env of
            Some e \<Rightarrow> Inl (mapNodeError e Write)
          | None \<Rightarrow>
             (case stat_fault env of
                Some e \<Rightarrow> Inl (mapNodeError e Write)
              | None \<Rightarrow> Inr \<lparr>mtimeMs = write_time env\<rparr>)))"
  by (simp add: write_accepted write_try_result)

lemma write_accepted_target:
  "byteLength s \<le> MAX_MIHOMO_CONFIG_SIZE_BYTES \<Longrightarrow>
   files (snd (writeMihomoConfigFile (String s) p env w)) p =
     (if writeFile_fault env = None \<and> rename_fault env = None
      then Some \<lparr>file_bytes = utf8_encode s, file_mtimeMs = write_time env\<rparr>
      else files w p)"
  using temp_neq [of p env]
  by (simp add: write_accepted unlink_other write_try_target)

lemma write_accepted_calls_exact:
  "byteLength s \<le> MAX_MIHOMO_CONFIG_SIZE_BYTES \<Longrightarrow>
   calls (snd (writeMihomoConfigFile (String s) p env w)) = calls w @ storage_calls s p env"
  by (simp add: write_accepted unlink_calls write_try_calls_exact)

lemma storage_calls_no_direct_write: "WriteFile p d \<notin> set (storage_calls s p env)"
  using temp_neq [of p env] by (auto simp: storage_calls_def split: option.splits)

lemma storage_calls_last: "last (storage_calls s p env) = Unlink (tempPath p env)"
  by (simp add: storage_calls_def)

lemma write_accepted_temp:
  "byteLength s \<le> MAX_MIHOMO_CONFIG_SIZE_BYTES \<Longrightarrow> unlink_fault env = None \<Longrightarrow>
   files (snd (writeMihomoConfigFile (String s) p env w)) (tempPath p env) = None"
  by (simp add: write_accepted unlink_removes)

lemma tempPath_unlink_fault [simp]: "tempPath p (env\<lparr>unlink_fault := f\<rparr>) = tempPath p env"
  by (simp add: tempPath_def)

lemma write_try_unlink_fault [simp]:
  "write_try s p (env\<lparr>unlink_fault := f\<rparr>) w = write_try s p env w"
  by (simp add: write_try_def cong: prod.case_cong sum.case_cong)

text \<open>Every call of the write, whatever its argument.\<close>

lemma write_target_cases:
  "files (snd (writeMihomoConfigFile v p env w)) p =
     (if typeof v = ''string'' \<and> byteLength (as_string v) \<le> MAX_MIHOMO_CONFIG_SIZE_BYTES
         \<and> writeFile_fault env = None \<and> rename_fault env = None
      then Some \<lparr>file_bytes = utf8_encode (as_string v), file_mtimeMs = write_time env\<rparr>
      else files w p)"
proof (cases "typeof v = ''string''")
  case False
  then show ?thesis by (simp add: write_invalid)
next
  case True
  then have v: "v = String (as_string v)" by (rule typeof_string)
  show ?thesis
  proof (cases "byteLength (as_string v) \<le> MAX_MIHOMO_CONFIG_SIZE_BYTES")
    case le: True
    show ?thesis
      using write_accepted_target [OF le, of p env w] v True le by simp
  next
    case gt: False
    then have "byteLength (as_string v) > MAX_MIHOMO_CONFIG_SIZE_BYTES" by simp
    from write_oversized [OF this, of p env w] v gt show ?thesis by simp
  qed
qed

lemma write_success_cases:
  "fst (writeMihomoConfigFile v p env w) = Inr x \<Longrightarrow>
   typeof v = ''string'' \<and> byteLength (as_string v) \<le> MAX_MIHOMO_CONFIG_SIZE_BYTES
   \<and> writeFile_fault env = None \<and> rename_fault env = None \<and> stat_fault env = None
   \<and> x = \<lparr>mtimeMs = write_time env\<rparr>"
proof (cases "typeof v = ''string''")
  case False
  assume "fst (writeMihomoConfigFile v p env w) = Inr x"
  with False show ?thesis by (simp add: write_invalid)
next
  case True
  assume r: "fst (writeMihomoConfigFile v p env w) = Inr x"
  from True have v: "v = String (as_string v)" by (rule typeof_string)
  show ?thesis
  proof (cases "byteLength (as_string v) \<le> MAX_MIHOMO_CONFIG_SIZE_BYTES")
    case le: True
    from r v have "fst (writeMihomoConfigFile (String (as_string v)) p env w) = Inr x" by simp
    then show ?thesis using True le
      by (auto simp: write_accepted_result [OF le] split: option.splits)
  next
    case gt: False
    then have "byteLength (as_string v) > MAX_MIHOMO_CONFIG_SIZE_BYTES" by simp
    from write_oversized [OF this, of p env w] v r show ?thesis by simp
  qed
qed

lemma write_success_target:
  "fst (writeMihomoConfigFile v p env w) = Inr r \<Longrightarrow>
   files (snd (writeMihomoConfigFile v p env w)) p =
     Some \<lparr>file_bytes = utf8_encode (as_string v), file_mtimeMs = write_time env\<rparr>"
  using write_success_cases [of v p env w r] by (simp add: write_target_cases)

subsection \<open>The read and the handlers\<close>

lemma read_files: "files (snd (readMihomoConfigFile p env w)) = files w"
  by (simp add: readMihomoConfigFile_def readFile_def stat_def
           split: option.splits prod.splits sum.splits)

lemma read_result_cases:
  "fst (readMihomoConfigFile p env w) =
     (case fst (readFile (readFile_fault env) p w) of
        Inr c \<Rightarrow>
          (case fst (stat (read_stat_fault env) p w) of
             Inr m \<Rightarrow> Inr \<lparr>mtimeMs = m, content = c\<rparr>
           | Inl e \<Rightarrow> Inl (mapNodeError e Read))
      | Inl e1 \<Rightarrow>
          (case fst (stat (read_stat_fault env) p w) of
             Inr m \<Rightarrow> Inl (mapNodeError e1 Read)
           | Inl e2 \<Rightarrow> Inl (mapNodeError (if stat_rejects_first env then e2 else e1) Read)))"
  by (auto simp: readMihomoConfigFile_def readFile_def stat_def
           split: option.splits prod.splits sum.splits)

lemma absent_rejections:
  "files w p = None \<Longrightarrow>
   fst (readFile f p w) = Inl (case f of Some e \<Rightarrow> e | None \<Rightarrow> errno ''ENOENT'')
   \<and> fst (stat g p w) = Inl (case g of Some e \<Rightarrow> e | None \<Rightarrow> errno ''ENOENT'')"
  by (simp add: readFile_def stat_def split: option.splits)

lemma has_code_enoent: "has_code (errno ''ENOENT'') ''ENOENT''"
  by (simp add: has_code_def errno_def opt_prop_def)

lemma mapNodeError_enoent:
  "has_code e ''ENOENT'' \<Longrightarrow>
   mapNodeError e a =
     \<lparr>code = NOT_FOUND, statusCode = 404, message = js_str ''Mihomo config file not found''\<rparr>"
  by (simp add: mapNodeError_def)

lemma read_absent_reported:
  assumes "files w p = None"
    and "\<forall>e. readFile_fault env = Some e \<longrightarrow> has_code e ''ENOENT''"
    and "\<forall>e. read_stat_fault env = Some e \<longrightarrow> has_code e ''ENOENT''"
  shows "fst (readMihomoConfigFile p env w) =
     Inl \<lparr>code = NOT_FOUND, statusCode = 404, message = js_str ''Mihomo config file not found''\<rparr>"
  using assms absent_rejections [of w p "readFile_fault env" "read_stat_fault env"]
  by (auto simp: read_result_cases mapNodeError_enoent has_code_enoent split: option.splits)

lemma read_absent_fails:
  "files w p = None \<Longrightarrow> \<exists>err. fst (readMihomoConfigFile p env w) = Inl err"
  using absent_rejections [of w p "readFile_fault env" "read_stat_fault env"]
  by (simp add: read_result_cases)

lemma read_success:
  "fst (readMihomoConfigFile p renv w) = Inr rr \<Longrightarrow>
   \<exists>f. files w p = Some f \<and> rr = \<lparr>mtimeMs = file_mtimeMs f, content = utf8_decode (file_bytes f)\<rparr>"
  by (auto simp: readMihomoConfigFile_def readFile_def stat_def
           split: option.splits prod.splits sum.splits if_splits)

lemma read_present:
  "files w p = Some f \<Longrightarrow> readFile_fault renv = None \<Longrightarrow> read_stat_fault renv = None \<Longrightarrow>
   fst (readMihomoConfigFile p renv w) =
     Inr \<lparr>mtimeMs = file_mtimeMs f, content = utf8_decode (file_bytes f)\<rparr>"
  by (simp add: readMihomoConfigFile_def readFile_def stat_def)

lemma put_invalid:
  "\<not> truthy body \<or> typeof (get_prop body (js_str ''content'')) \<noteq> ''string'' \<Longrightarrow>
   mihomo_config_put (Inr body) env w =
     (Inl (createError 400 (js_str ''`content` must be a string'') (Some INVALID_CONTENT)), w)"
  by (auto simp: mihomo_config_put_def put_try_def)

lemma put_delegates:
  "truthy body \<Longrightarrow> typeof (get_prop body (js_str ''content'')) = ''string'' \<Longrightarrow>
   snd (mihomo_config_put (Inr body) env w) =
     snd (writeMihomoConfigFile (get_prop body (js_str ''content'')) MIHOMO_CONFIG_FILE_PATH env w)"
  by (auto simp: mihomo_config_put_def put_try_def split: prod.splits sum.splits exn.splits)

lemma catch_413:
  "fetch_catch toString (H3 (createError 413 m None)) = H3 (createError 413 m None)"
  by (simp add: fetch_catch_def createError_def)

lemma fetch_try_declared:
  "resp_ok r \<Longrightarrow> resp_content_length r = Some h \<Longrightarrow> h \<noteq> [] \<Longrightarrow>
   number_gt (toNumber h) (real MAX_MIHOMO_CONFIG_SIZE_BYTES) \<Longrightarrow>
   fetch_try toNumber (Inr r) =
     Inl (H3 (createError 413 (js_str ''Remote file exceeds 2097152 bytes limit'') None))"
  by (simp add: fetch_try_def limit_message)

lemma fetch_try_actual:
  "resp_ok r \<Longrightarrow> resp_text r = Inr c \<Longrightarrow> byteLength c > MAX_MIHOMO_CONFIG_SIZE_BYTES \<Longrightarrow>
   fetch_try toNumber (Inr r) =
     Inl (H3 (createError 413 (js_str ''Remote file exceeds 2097152 bytes limit'') None))"
  by (simp add: fetch_try_def limit_message byteLength_def split: option.splits)

lemma fetch_try_accepts:
  "fetch_try toNumber (Inr r) = Inr c \<Longrightarrow>
   resp_text r = Inr c \<and> byteLength c \<le> MAX_MIHOMO_CONFIG_SIZE_BYTES
   \<and> (\<forall>h. resp_content_length r = Some h \<longrightarrow>
         h = [] \<or> \<not> number_gt (toNumber h) (real MAX_MIHOMO_CONFIG_SIZE_BYTES))"
  by (auto simp: fetch_try_def byteLength_def split: option.splits sum.splits if_splits)

lemma handler_valid_url:
  "truthy url \<Longrightarrow> typeof url = ''string'' \<Longrightarrow>
   startsWith (as_string url) (js_str ''http://'') \<or> startsWith (as_string url) (js_str ''https://'') \<Longrightarrow>
   fetch_remote_handler toNumber toString url fetched =
     (case fetch_try toNumber fetched of
        Inl err \<Rightarrow> Inl (fetch_catch toString err)
      | Inr c \<Rightarrow> Inr c)"
  by (auto simp: fetch_remote_handler_def)

lemma example_url_ok:
  "truthy example_url" "typeof example_url = ''string''"
  "startsWith (as_string example_url) (js_str ''http://'')
   \<or> startsWith (as_string example_url) (js_str ''https://'')"
  by (simp_all add: example_url_def startsWith_def js_str_def)

lemma declared_number:
  "digits_number (js_str ''2097153'') = Finite 2097153"
  by (simp add: digits_number_def js_str_def is_digit_def)

section \<open>The error classifier\<close>

text \<open>
  C5. \<open>mapNodeError\<close> is a function of the caught value and the action alone. A value whose
  \<open>code\<close> is \<open>ENOENT\<close> becomes \<open>NOT_FOUND\<close> with status 404; one whose \<open>code\<close> is \<open>EACCES\<close> or
  \<open>EPERM\<close> becomes \<open>PERMISSION_DENIED\<close> with status 403; every other value becomes \<open>IO_ERROR\<close>
  with status 500. The action enters the message only: the kind and the status code are
  the same for \<open>read\<close> and \<open>write\<close>.
\<close>

theorem mapNodeError_classifies:
  "(has_code error ''ENOENT'' \<longrightarrow>
      mapNodeError error act =
        \<lparr>code = NOT_FOUND, statusCode = 404, message = js_str ''Mihomo config file not found''\<rparr>)
   \<and> (has_code error ''EACCES'' \<or> has_code error ''EPERM'' \<longrightarrow>
      mapNodeError error act =
        \<lparr>code = PERMISSION_DENIED, statusCode = 403,
         message = js_str ''Permission denied while trying to '' @ action_str act
                     @ js_str '' Mihomo config file''\<rparr>)
   \<and> (\<not> has_code error ''ENOENT'' \<and> \<not> has_code error ''EACCES'' \<and> \<not> has_code error ''EPERM'' \<longrightarrow>
      mapNodeError error act =
        \<lparr>code = IO_ERROR, statusCode = 500,
         message = js_str ''Failed to '' @ action_str act @ js_str '' Mihomo config file''\<rparr>)
   \<and> code (mapNodeError error act) = code (mapNodeError error act')
   \<and> statusCode (mapNodeError error act) = statusCode (mapNodeError error act')"
  by (auto simp: mapNodeError_def has_code_def js_str_def)

text \<open>The classifier on the errors of four causes and on \<open>undefined\<close>.\<close>

theorem mapNodeError_classifies_witness:
  "mapNodeError (errno ''ENOENT'') Write =
     \<lparr>code = NOT_FOUND, statusCode = 404, message = js_str ''Mihomo config file not found''\<rparr>
   \<and> mapNodeError (errno ''EACCES'') Read =
     \<lparr>code = PERMISSION_DENIED, statusCode = 403,
      message = js_str ''Permission denied while trying to read Mihomo config file''\<rparr>
   \<and> mapNodeError (errno ''EPERM'') Write =
     \<lparr>code = PERMISSION_DENIED, statusCode = 403,
      message = js_str ''Permission denied while trying to write Mihomo config file''\<rparr>
   \<and> mapNodeError (errno ''EIO'') Write =
     \<lparr>code = IO_ERROR, statusCode = 500, message = js_str ''Failed to write Mihomo config file''\<rparr>
   \<and> mapNodeError Undefined Read =
     \<lparr>code = IO_ERROR, statusCode = 500, message = js_str ''Failed to read Mihomo config file''\<rparr>"
  using mapNodeError_classifies [of "errno ''ENOENT''" Write]
        mapNodeError_classifies [of "errno ''EACCES''" Read]
        mapNodeError_classifies [of "errno ''EPERM''" Write]
        mapNodeError_classifies [of "errno ''EIO''" Write]
        mapNodeError_classifies [of Undefined Read]
  by (simp add: has_code_def errno_def opt_prop_def js_str_def)

section \<open>The guards of the write\<close>

text \<open>
  C3. A string whose UTF-8 encoding is longer than \<open>2 * 1024 * 1024\<close> bytes is refused with
  \<open>CONTENT_TOO_LARGE\<close> and status 413, and the world after the call is the world before it:
  no storage call has been issued and every file, the target among them, is as it was.
\<close>

theorem write_rejects_oversized:
  "byteLength s > MAX_MIHOMO_CONFIG_SIZE_BYTES \<Longrightarrow>
   writeMihomoConfigFile (String s) filePath env w =
     (Inl \<lparr>code = CONTENT_TOO_LARGE, statusCode = 413,
           message = js_str ''Config content exceeds 2097152 bytes''\<rparr>, w)"
  by (rule write_oversized)

text \<open>The scenario of the test suite: \<open>2 * 1024 * 1024 + 1\<close> letters \<open>a\<close>.\<close>

theorem write_rejects_oversized_witness:
  "byteLength oversized > MAX_MIHOMO_CONFIG_SIZE_BYTES \<and>
   writeMihomoConfigFile (String oversized) MIHOMO_CONFIG_FILE_PATH example_env example_world =
     (Inl \<lparr>code = CONTENT_TOO_LARGE, statusCode = 413,
           message = js_str ''Config content exceeds 2097152 bytes''\<rparr>, example_world)"
proof -
  have h: "byteLength oversized > MAX_MIHOMO_CONFIG_SIZE_BYTES"
    by (simp add: byteLength_oversized)
  show ?thesis using h write_rejects_oversized [OF h] by simp
qed

text \<open>
  C4. An argument that is not a string is refused with \<open>INVALID_CONTENT\<close> and status 400, and
  the world is returned as it was, so no storage call has been issued. The \<open>PUT\<close> handler
  makes the same test on the body it has read: a body that is falsy or whose \<open>content\<close> is
  not a string is answered with status 400 and the kind \<open>INVALID_CONTENT\<close>, the world
  untouched; any other body is handed to the write, on the default path.
\<close>

theorem non_string_content_rejected:
  "(typeof v \<noteq> ''string'' \<longrightarrow>
      writeMihomoConfigFile v filePath env w =
        (Inl \<lparr>code = INVALID_CONTENT, statusCode = 400,
              message = js_str ''`content` must be a string''\<rparr>, w))
   \<and> (\<not> truthy body \<or> typeof (get_prop body (js_str ''content'')) \<noteq> ''string'' \<longrightarrow>
      mihomo_config_put (Inr body) env w =
        (Inl (createError 400 (js_str ''`content` must be a string'') (Some INVALID_CONTENT)), w))
   \<and> (truthy body \<and> typeof (get_prop body (js_str ''content'')) = ''string'' \<longrightarrow>
      snd (mihomo_config_put (Inr body) env w) =
        snd (writeMihomoConfigFile (get_prop body (js_str ''content'')) MIHOMO_CONFIG_FILE_PATH
               env w))"
  using write_invalid put_invalid put_delegates by blast

text \<open>A number as the argument; the bodies \<open>null\<close>, \<open>{content: 42}\<close> and \<open>{content: "port: 7891\n"}\<close>.\<close>

theorem non_string_content_rejected_witness:
  "writeMihomoConfigFile (Number (Finite 42)) MIHOMO_CONFIG_FILE_PATH example_env example_world =
     (Inl \<lparr>code = INVALID_CONTENT, statusCode = 400,
           message = js_str ''`content` must be a string''\<rparr>, example_world)
   \<and> mihomo_config_put (Inr Null) example_env example_world =
     (Inl (createError 400 (js_str ''`content` must be a string'') (Some INVALID_CONTENT)),
      example_world)
   \<and> mihomo_config_put (Inr (Object [(js_str ''content'', Number (Finite 42))])) example_env
        example_world =
     (Inl (createError 400 (js_str ''`content` must be a string'') (Some INVALID_CONTENT)),
      example_world)
   \<and> snd (mihomo_config_put (Inr (Object [(js_str ''content'', String new_content)])) example_env
        example_world) =
     snd (writeMihomoConfigFile (String new_content) MIHOMO_CONFIG_FILE_PATH example_env
        example_world)"
  using non_string_content_rejected
          [where v = "Number (Finite 42)" and body = Null and env = example_env
             and w = example_world and filePath = MIHOMO_CONFIG_FILE_PATH]
        non_string_content_rejected
          [where v = Null and body = "Object [(js_str ''content'', Number (Finite 42))]"
             and env = example_env and w = example_world and filePath = MIHOMO_CONFIG_FILE_PATH]
        non_string_content_rejected
          [where v = Null and body = "Object [(js_str ''content'', String new_content)]"
             and env = example_env and w = example_world and filePath = MIHOMO_CONFIG_FILE_PATH]
  by simp

text \<open>
  C10. A string whose UTF-8 encoding is exactly \<open>2 * 1024 * 1024\<close> bytes long passes the size
  guard: the write never ends in \<open>CONTENT_TOO_LARGE\<close>, it goes on to the storage calls, the
  first of which writes the temporary file, and where no storage call fails it succeeds
  and the target holds the encoded string.
\<close>

theorem write_accepts_exact_limit:
  "byteLength s = MAX_MIHOMO_CONFIG_SIZE_BYTES \<Longrightarrow>
     (\<forall>e. fst (writeMihomoConfigFile (String s) p env w) = Inl e \<longrightarrow> code e \<noteq> CONTENT_TOO_LARGE)
   \<and> calls (snd (writeMihomoConfigFile (String s) p env w)) = calls w @ storage_calls s p env
   \<and> hd (storage_calls s p env) = WriteFile (tempPath p env) s
   \<and> (writeFile_fault env = None \<and> rename_fault env = None \<and> stat_fault env = None \<longrightarrow>
        fst (writeMihomoConfigFile (String s) p env w) = Inr \<lparr>mtimeMs = write_time env\<rparr>
        \<and> files (snd (writeMihomoConfigFile (String s) p env w)) p =
            Some \<lparr>file_bytes = utf8_encode s, file_mtimeMs = write_time env\<rparr>)"
proof -
  assume "byteLength s = MAX_MIHOMO_CONFIG_SIZE_BYTES"
  then have le: "byteLength s \<le> MAX_MIHOMO_CONFIG_SIZE_BYTES" by simp
  show ?thesis
  proof (intro conjI allI impI)
    fix e assume "fst (writeMihomoConfigFile (String s) p env w) = Inl e"
    then show "code e \<noteq> CONTENT_TOO_LARGE"
      using write_try_not_too_large [of s p env w e] by (simp add: write_accepted [OF le])
  next
    show "calls (snd (writeMihomoConfigFile (String s) p env w)) = calls w @ storage_calls s p env"
      by (rule write_accepted_calls_exact [OF le])
  next
    show "hd (storage_calls s p env) = WriteFile (tempPath p env) s"
      by (simp add: storage_calls_def split: option.splits)
  next
    assume "writeFile_fault env = None \<and> rename_fault env = None \<and> stat_fault env = None"
    then show "fst (writeMihomoConfigFile (String s) p env w) = Inr \<lparr>mtimeMs = write_time env\<rparr>"
      by (simp add: write_accepted_result [OF le])
  next
    assume "writeFile_fault env = None \<and> rename_fault env = None \<and> stat_fault env = None"
    then show "files (snd (writeMihomoConfigFile (String s) p env w)) p =
            Some \<lparr>file_bytes = utf8_encode s, file_mtimeMs = write_time env\<rparr>"
      by (simp add: write_accepted_target [OF le])
  qed
qed

text \<open>\<open>2 * 1024 * 1024\<close> letters \<open>a\<close>, written where no storage call fails.\<close>

theorem write_accepts_exact_limit_witness:
  "byteLength at_limit = MAX_MIHOMO_CONFIG_SIZE_BYTES
   \<and> fst (writeMihomoConfigFile (String at_limit) MIHOMO_CONFIG_FILE_PATH example_env example_world)
       = Inr \<lparr>mtimeMs = 1700000000123\<rparr>
   \<and> files (snd (writeMihomoConfigFile (String at_limit) MIHOMO_CONFIG_FILE_PATH example_env
         example_world)) MIHOMO_CONFIG_FILE_PATH =
       Some \<lparr>file_bytes = utf8_encode at_limit, file_mtimeMs = 1700000000123\<rparr>"
  using write_accepts_exact_limit
          [OF byteLength_at_limit, of MIHOMO_CONFIG_FILE_PATH example_env example_world]
  by (simp add: byteLength_at_limit example_env_def)

section \<open>The read\<close>

text \<open>
  C6, as amended. A read of a path at which no file exists always fails, and it fails with
  \<open>NOT_FOUND\<close> and status 404 when the storage calls report the absence, that is, when
  whatever they reject with says \<open>ENOENT\<close>. A read, failing or not, leaves every file as it
  was. The read succeeds exactly when both \<open>readFile\<close> and \<open>stat\<close> succeed, with the content
  and the modification time they return; when one of them rejects, the read fails with the
  classifier's image of that rejection, and when both reject, with the image of the one
  that comes first. That image is \<open>NOT_FOUND\<close>/404 for \<open>ENOENT\<close>, \<open>PERMISSION_DENIED\<close>/403 for
  \<open>EACCES\<close> or \<open>EPERM\<close>, and \<open>IO_ERROR\<close>/500 for anything else.
\<close>

theorem read_failures_classified:
  "(files w p = None \<longrightarrow> (\<exists>err. fst (readMihomoConfigFile p env w) = Inl err))
   \<and> (files w p = None
        \<and> (\<forall>e. readFile_fault env = Some e \<longrightarrow> has_code e ''ENOENT'')
        \<and> (\<forall>e. read_stat_fault env = Some e \<longrightarrow> has_code e ''ENOENT'') \<longrightarrow>
      fst (readMihomoConfigFile p env w) =
        Inl \<lparr>code = NOT_FOUND, statusCode = 404,
             message = js_str ''Mihomo config file not found''\<rparr>)
   \<and> files (snd (readMihomoConfigFile p env w)) = files w
   \<and> (\<forall>c m. fst (readFile (readFile_fault env) p w) = Inr c
            \<and> fst (stat (read_stat_fault env) p w) = Inr m \<longrightarrow>
        fst (readMihomoConfigFile p env w) = Inr \<lparr>mtimeMs = m, content = c\<rparr>)
   \<and> (\<forall>e m. fst (readFile (readFile_fault env) p w) = Inl e
            \<and> fst (stat (read_stat_fault env) p w) = Inr m \<longrightarrow>
        fst (readMihomoConfigFile p env w) = Inl (mapNodeError e Read))
   \<and> (\<forall>c e. fst (readFile (readFile_fault env) p w) = Inr c
            \<and> fst (stat (read_stat_fault env) p w) = Inl e \<longrightarrow>
        fst (readMihomoConfigFile p env w) = Inl (mapNodeError e Read))
   \<and> (\<forall>e1 e2. fst (readFile (readFile_fault env) p w) = Inl e1
            \<and> fst (stat (read_stat_fault env) p w) = Inl e2 \<longrightarrow>
        fst (readMihomoConfigFile p env w) =
          Inl (mapNodeError (if stat_rejects_first env then e2 else e1) Read))
   \<and> (\<forall>e. code (mapNodeError e Read) =
              (if has_code e ''ENOENT'' then NOT_FOUND
               else if has_code e ''EACCES'' \<or> has_code e ''EPERM'' then PERMISSION_DENIED
               else IO_ERROR)
           \<and> statusCode (mapNodeError e Read) =
              (if has_code e ''ENOENT'' then 404
               else if has_code e ''EACCES'' \<or> has_code e ''EPERM'' then 403
               else 500))"
proof (intro conjI allI impI)
  assume "files w p = None"
  then show "\<exists>err. fst (readMihomoConfigFile p env w) = Inl err"
    by (rule read_absent_fails)
next
  assume "files w p = None
        \<and> (\<forall>e. readFile_fault env = Some e \<longrightarrow> has_code e ''ENOENT'')
        \<and> (\<forall>e. read_stat_fault env = Some e \<longrightarrow> has_code e ''ENOENT'')"
  then show "fst (readMihomoConfigFile p env w) =
        Inl \<lparr>code = NOT_FOUND, statusCode = 404,
             message = js_str ''Mihomo config file not found''\<rparr>"
    by (simp add: read_absent_reported)
next
  show "files (snd (readMihomoConfigFile p env w)) = files w"
    by (rule read_files)
next
  fix e show "code (mapNodeError e Read) =
              (if has_code e ''ENOENT'' then NOT_FOUND
               else if has_code e ''EACCES'' \<or> has_code e ''EPERM'' then PERMISSION_DENIED
               else IO_ERROR)"
    by (rule mapNodeError_code)
next
  fix e show "statusCode (mapNodeError e Read) =
              (if has_code e ''ENOENT'' then 404
               else if has_code e ''EACCES'' \<or> has_code e ''EPERM'' then 403
               else 500)"
    by (rule mapNodeError_code)
qed (simp_all add: read_result_cases)

text \<open>
  A read where there is no file, a read that is denied access to an existing file, and a
  read that succeeds.
\<close>

theorem read_failures_classified_witness:
  "fst (readMihomoConfigFile MIHOMO_CONFIG_FILE_PATH example_read_env empty_world) =
     Inl \<lparr>code = NOT_FOUND, statusCode = 404, message = js_str ''Mihomo config file not found''\<rparr>
   \<and> files (snd (readMihomoConfigFile MIHOMO_CONFIG_FILE_PATH example_read_env empty_world)) =
       files empty_world
   \<and> fst (readMihomoConfigFile MIHOMO_CONFIG_FILE_PATH denied_read_env example_world) =
       Inl \<lparr>code = PERMISSION_DENIED, statusCode = 403,
            message = js_str ''Permission denied while trying to read Mihomo config file''\<rparr>
   \<and> fst (readMihomoConfigFile MIHOMO_CONFIG_FILE_PATH example_read_env example_world) =
       Inr \<lparr>mtimeMs = 1600000000000, content = js_str ''port: 7890\<newline>''\<rparr>"
proof -
  have a: "files empty_world MIHOMO_CONFIG_FILE_PATH = None
      \<and> (\<forall>e. readFile_fault example_read_env = Some e \<longrightarrow> has_code e ''ENOENT'')
      \<and> (\<forall>e. read_stat_fault example_read_env = Some e \<longrightarrow> has_code e ''ENOENT'')"
    by (simp add: empty_world_def example_read_env_def)
  have d: "fst (readFile (readFile_fault denied_read_env) MIHOMO_CONFIG_FILE_PATH example_world)
        = Inl (errno ''EACCES'')
      \<and> fst (stat (read_stat_fault denied_read_env) MIHOMO_CONFIG_FILE_PATH example_world)
        = Inr 1600000000000"
    by (simp add: readFile_def stat_def denied_read_env_def example_world_def)
  have m: "mapNodeError (errno ''EACCES'') Read =
       \<lparr>code = PERMISSION_DENIED, statusCode = 403,
        message = js_str ''Permission denied while trying to read Mihomo config file''\<rparr>"
    by (simp add: mapNodeError_def has_code_def errno_def opt_prop_def js_str_def)
  have s: "fst (readFile (readFile_fault example_read_env) MIHOMO_CONFIG_FILE_PATH example_world)
        = Inr (js_str ''port: 7890\<newline>'')
      \<and> fst (stat (read_stat_fault example_read_env) MIHOMO_CONFIG_FILE_PATH example_world)
        = Inr 1600000000000"
    by (simp add: readFile_def stat_def example_read_env_def example_world_def decode_example)
  have c1: "fst (readMihomoConfigFile MIHOMO_CONFIG_FILE_PATH example_read_env empty_world) =
     Inl \<lparr>code = NOT_FOUND, statusCode = 404, message = js_str ''Mihomo config file not found''\<rparr>
   \<and> files (snd (readMihomoConfigFile MIHOMO_CONFIG_FILE_PATH example_read_env empty_world)) =
       files empty_world"
    using read_failures_classified
            [where w = empty_world and p = MIHOMO_CONFIG_FILE_PATH and env = example_read_env] a
    by simp
  have c2: "fst (readMihomoConfigFile MIHOMO_CONFIG_FILE_PATH denied_read_env example_world) =
       Inl (mapNodeError (errno ''EACCES'') Read)"
    using read_failures_classified
            [where w = example_world and p = MIHOMO_CONFIG_FILE_PATH and env = denied_read_env] d
    by simp
  have c3: "fst (readMihomoConfigFile MIHOMO_CONFIG_FILE_PATH example_read_env example_world) =
       Inr \<lparr>mtimeMs = 1600000000000, content = js_str ''port: 7890\<newline>''\<rparr>"
    using read_failures_classified
            [where w = example_world and p = MIHOMO_CONFIG_FILE_PATH and env = example_read_env] s
    by simp
  from c1 c2 c3 m show ?thesis by simp
qed

text \<open>
  C6 as it stands fails for a path under something that is not a directory: no file
  exists there, the storage calls reject with \<open>ENOTDIR\<close>, and the read fails with \<open>IO_ERROR\<close>
  and status 500.
\<close>

theorem absent_file_other_failure_counterexample:
  "files empty_world MIHOMO_CONFIG_FILE_PATH = None
   \<and> fst (readMihomoConfigFile MIHOMO_CONFIG_FILE_PATH blocked_read_env empty_world) =
       Inl \<lparr>code = IO_ERROR, statusCode = 500,
            message = js_str ''Failed to read Mihomo config file''\<rparr>
   \<and> code (projl (fst (readMihomoConfigFile MIHOMO_CONFIG_FILE_PATH blocked_read_env empty_world)))
       \<noteq> NOT_FOUND"
  by (simp add: read_result_cases readFile_def stat_def blocked_read_env_def empty_world_def
        mapNodeError_def has_code_def errno_def opt_prop_def js_str_def)

section \<open>The write\<close>

text \<open>
  C2, as amended. For every call of the write: when it succeeds the target holds the
  whole new content; whatever the outcome, the target afterwards is either exactly as it
  was before the call or the whole new content, never a part of it and never removed;
  when the call fails at a guard, at the write of the temporary file or at the rename,
  the target is as it was; when it fails although both of these went through, the failure
  is that of the final \<open>stat\<close> and the target already holds the whole new content. An
  accepted write issues the storage calls listed by \<open>storage_calls\<close>, none of which writes
  to the target directly.
\<close>

theorem write_target_old_or_new:
  "((\<exists>x. fst (writeMihomoConfigFile v p env w) = Inr x) \<longrightarrow>
      files (snd (writeMihomoConfigFile v p env w)) p =
        Some \<lparr>file_bytes = utf8_encode (as_string v), file_mtimeMs = write_time env\<rparr>)
   \<and> (files (snd (writeMihomoConfigFile v p env w)) p = files w p
      \<or> files (snd (writeMihomoConfigFile v p env w)) p =
           Some \<lparr>file_bytes = utf8_encode (as_string v), file_mtimeMs = write_time env\<rparr>)
   \<and> ((\<exists>e. fst (writeMihomoConfigFile v p env w) = Inl e)
        \<and> (typeof v \<noteq> ''string'' \<or> byteLength (as_string v) > MAX_MIHOMO_CONFIG_SIZE_BYTES
           \<or> writeFile_fault env \<noteq> None \<or> rename_fault env \<noteq> None) \<longrightarrow>
      files (snd (writeMihomoConfigFile v p env w)) p = files w p)
   \<and> ((\<exists>e. fst (writeMihomoConfigFile v p env w) = Inl e)
        \<and> typeof v = ''string'' \<and> byteLength (as_string v) \<le> MAX_MIHOMO_CONFIG_SIZE_BYTES
        \<and> writeFile_fault env = None \<and> rename_fault env = None \<longrightarrow>
      stat_fault env \<noteq> None
      \<and> files (snd (writeMihomoConfigFile v p env w)) p =
           Some \<lparr>file_bytes = utf8_encode (as_string v), file_mtimeMs = write_time env\<rparr>)
   \<and> (typeof v = ''string'' \<and> byteLength (as_string v) \<le> MAX_MIHOMO_CONFIG_SIZE_BYTES \<longrightarrow>
        calls (snd (writeMihomoConfigFile v p env w)) =
          calls w @ storage_calls (as_string v) p env
        \<and> (\<forall>d. WriteFile p d \<notin> set (storage_calls (as_string v) p env)))"
proof (intro conjI impI allI)
  assume "\<exists>x. fst (writeMihomoConfigFile v p env w) = Inr x"
  then obtain x where "fst (writeMihomoConfigFile v p env w) = Inr x" ..
  then show "files (snd (writeMihomoConfigFile v p env w)) p =
        Some \<lparr>file_bytes = utf8_encode (as_string v), file_mtimeMs = write_time env\<rparr>"
    by (rule write_success_target)
next
  show "files (snd (writeMihomoConfigFile v p env w)) p = files w p
      \<or> files (snd (writeMihomoConfigFile v p env w)) p =
           Some \<lparr>file_bytes = utf8_encode (as_string v), file_mtimeMs = write_time env\<rparr>"
    by (simp add: write_target_cases)
next
  assume "(\<exists>e. fst (writeMihomoConfigFile v p env w) = Inl e)
        \<and> (typeof v \<noteq> ''string'' \<or> byteLength (as_string v) > MAX_MIHOMO_CONFIG_SIZE_BYTES
           \<or> writeFile_fault env \<noteq> None \<or> rename_fault env \<noteq> None)"
  then show "files (snd (writeMihomoConfigFile v p env w)) p = files w p"
    by (auto simp: write_target_cases)
next
  assume a: "(\<exists>e. fst (writeMihomoConfigFile v p env w) = Inl e)
        \<and> typeof v = ''string'' \<and> byteLength (as_string v) \<le> MAX_MIHOMO_CONFIG_SIZE_BYTES
        \<and> writeFile_fault env = None \<and> rename_fault env = None"
  then have v: "v = String (as_string v)" by (simp add: typeof_string)
  from a have le: "byteLength (as_string v) \<le> MAX_MIHOMO_CONFIG_SIZE_BYTES" by simp
  from a obtain e where "fst (writeMihomoConfigFile v p env w) = Inl e" by blast
  with v have "fst (writeMihomoConfigFile (String (as_string v)) p env w) = Inl e" by simp
  with a show "stat_fault env \<noteq> None"
    by (auto simp: write_accepted_result [OF le] split: option.splits)
next
  assume a: "(\<exists>e. fst (writeMihomoConfigFile v p env w) = Inl e)
        \<and> typeof v = ''string'' \<and> byteLength (as_string v) \<le> MAX_MIHOMO_CONFIG_SIZE_BYTES
        \<and> writeFile_fault env = None \<and> rename_fault env = None"
  then show "files (snd (writeMihomoConfigFile v p env w)) p =
           Some \<lparr>file_bytes = utf8_encode (as_string v), file_mtimeMs = write_time env\<rparr>"
    by (simp add: write_target_cases)
next
  assume a: "typeof v = ''string'' \<and> byteLength (as_string v) \<le> MAX_MIHOMO_CONFIG_SIZE_BYTES"
  then have v: "v = String (as_string v)" by (simp add: typeof_string)
  from a have le: "byteLength (as_string v) \<le> MAX_MIHOMO_CONFIG_SIZE_BYTES" by simp
  from write_accepted_calls_exact [OF le, of p env w] v
  show "calls (snd (writeMihomoConfigFile v p env w)) =
          calls w @ storage_calls (as_string v) p env" by simp
next
  fix d show "WriteFile p d \<notin> set (storage_calls (as_string v) p env)"
    by (rule storage_calls_no_direct_write)
qed

text \<open>A write that succeeds, and a write whose rename is denied.\<close>

theorem write_target_old_or_new_witness:
  "fst (writeMihomoConfigFile (String new_content) MIHOMO_CONFIG_FILE_PATH example_env
          example_world) = Inr \<lparr>mtimeMs = 1700000000123\<rparr>
   \<and> files (snd (writeMihomoConfigFile (String new_content) MIHOMO_CONFIG_FILE_PATH example_env
          example_world)) MIHOMO_CONFIG_FILE_PATH =
       Some \<lparr>file_bytes = utf8_encode new_content, file_mtimeMs = 1700000000123\<rparr>
   \<and> fst (writeMihomoConfigFile (String new_content) MIHOMO_CONFIG_FILE_PATH rename_fails_env
          example_world) =
       Inl \<lparr>code = PERMISSION_DENIED, statusCode = 403,
            message = js_str ''Permission denied while trying to write Mihomo config file''\<rparr>
   \<and> files (snd (writeMihomoConfigFile (String new_content) MIHOMO_CONFIG_FILE_PATH
          rename_fails_env example_world)) MIHOMO_CONFIG_FILE_PATH =
       files example_world MIHOMO_CONFIG_FILE_PATH"
proof -
  have ok: "fst (writeMihomoConfigFile (String new_content) MIHOMO_CONFIG_FILE_PATH example_env
          example_world) = Inr \<lparr>mtimeMs = 1700000000123\<rparr>"
    by (simp add: write_accepted_result [OF new_content_small] example_env_def)
  have bad: "fst (writeMihomoConfigFile (String new_content) MIHOMO_CONFIG_FILE_PATH
          rename_fails_env example_world) =
       Inl \<lparr>code = PERMISSION_DENIED, statusCode = 403,
            message = js_str ''Permission denied while trying to write Mihomo config file''\<rparr>"
    by (simp add: write_accepted_result [OF new_content_small] rename_fails_env_def
          example_env_def mapNodeError_def has_code_def errno_def opt_prop_def js_str_def)
  have rf: "rename_fault rename_fails_env \<noteq> None"
    by (simp add: rename_fails_env_def)
  from write_target_old_or_new
         [where v = "String new_content" and p = MIHOMO_CONFIG_FILE_PATH and env = example_env
            and w = example_world]
       write_target_old_or_new
         [where v = "String new_content" and p = MIHOMO_CONFIG_FILE_PATH
            and env = rename_fails_env and w = example_world]
       ok bad rf
  show ?thesis by (simp add: example_env_def)
qed

text \<open>
  C2 as it stands fails where the final \<open>stat\<close> is the call that fails: the write
  reports \<open>IO_ERROR\<close>, and the target, which held \<open>port: 7890\<close>, holds the new content.
\<close>

theorem write_failure_after_rename_counterexample:
  "fst (writeMihomoConfigFile (String new_content) MIHOMO_CONFIG_FILE_PATH stat_fails_env
          example_world) =
     Inl \<lparr>code = IO_ERROR, statusCode = 500, message = js_str ''Failed to write Mihomo config file''\<rparr>
   \<and> files example_world MIHOMO_CONFIG_FILE_PATH =
       Some \<lparr>file_bytes = utf8_encode (js_str ''port: 7890\<newline>''), file_mtimeMs = 1600000000000\<rparr>
   \<and> files (snd (writeMihomoConfigFile (String new_content) MIHOMO_CONFIG_FILE_PATH stat_fails_env
          example_world)) MIHOMO_CONFIG_FILE_PATH =
       Some \<lparr>file_bytes = utf8_encode new_content, file_mtimeMs = 1700000000123\<rparr>
   \<and> files (snd (writeMihomoConfigFile (String new_content) MIHOMO_CONFIG_FILE_PATH stat_fails_env
          example_world)) MIHOMO_CONFIG_FILE_PATH
       \<noteq> files example_world MIHOMO_CONFIG_FILE_PATH"
  by (simp add: write_accepted_result [OF new_content_small]
        write_accepted_target [OF new_content_small]
        stat_fails_env_def example_env_def example_world_def
        mapNodeError_def has_code_def errno_def opt_prop_def js_str_def)

text \<open>
  C7, as amended. On every exit path of the write that lies behind the two guards, that
  is, for every string of at most \<open>2 * 1024 * 1024\<close> bytes: the last storage call issued is
  the removal of the temporary file; the outcome of the call is the outcome of the \<open>try\<close>
  block, and it is the same whatever becomes of the removal; and unless the removal
  itself fails, no file is left at the temporary path.
\<close>

theorem cleanup_after_accepted_write:
  "byteLength s \<le> MAX_MIHOMO_CONFIG_SIZE_BYTES \<Longrightarrow>
     calls (snd (writeMihomoConfigFile (String s) p env w)) = calls w @ storage_calls s p env
   \<and> last (storage_calls s p env) = Unlink (tempPath p env)
   \<and> fst (writeMihomoConfigFile (String s) p env w) = fst (write_try s p env w)
   \<and> fst (writeMihomoConfigFile (String s) p (env\<lparr>unlink_fault := f\<rparr>) w) =
       fst (writeMihomoConfigFile (String s) p env w)
   \<and> (unlink_fault env = None \<longrightarrow>
        files (snd (writeMihomoConfigFile (String s) p env w)) (tempPath p env) = None)"
  by (simp add: write_accepted_calls_exact storage_calls_last write_accepted_temp)
     (simp add: write_accepted)

text \<open>A successful write, and the same write with a removal that fails.\<close>

theorem cleanup_after_accepted_write_witness:
  "byteLength new_content \<le> MAX_MIHOMO_CONFIG_SIZE_BYTES
   \<and> calls (snd (writeMihomoConfigFile (String new_content) MIHOMO_CONFIG_FILE_PATH example_env
          example_world)) =
       [WriteFile (tempPath MIHOMO_CONFIG_FILE_PATH example_env) new_content,
        Rename (tempPath MIHOMO_CONFIG_FILE_PATH example_env) MIHOMO_CONFIG_FILE_PATH,
        Stat MIHOMO_CONFIG_FILE_PATH,
        Unlink (tempPath MIHOMO_CONFIG_FILE_PATH example_env)]
   \<and> files (snd (writeMihomoConfigFile (String new_content) MIHOMO_CONFIG_FILE_PATH example_env
          example_world)) (tempPath MIHOMO_CONFIG_FILE_PATH example_env) = None
   \<and> fst (writeMihomoConfigFile (String new_content) MIHOMO_CONFIG_FILE_PATH cleanup_fails_env
          example_world) =
       fst (writeMihomoConfigFile (String new_content) MIHOMO_CONFIG_FILE_PATH example_env
          example_world)"
  using cleanup_after_accepted_write
          [OF new_content_small, where p = MIHOMO_CONFIG_FILE_PATH and env = example_env
             and w = example_world and f = "Some (errno ''EBUSY'')"]
  by (simp add: new_content_small cleanup_fails_env_def)
     (simp add: example_env_def example_world_def storage_calls_def)

text \<open>
  C7 as it stands fails on the exit paths of the guards: a write that is refused
  for its size ends without any storage call, so without an attempt to remove the
  temporary path.
\<close>

theorem no_cleanup_on_guard_exit_counterexample:
  "fst (writeMihomoConfigFile (String oversized) MIHOMO_CONFIG_FILE_PATH example_env example_world)
     = Inl \<lparr>code = CONTENT_TOO_LARGE, statusCode = 413,
            message = js_str ''Config content exceeds 2097152 bytes''\<rparr>
   \<and> calls (snd (writeMihomoConfigFile (String oversized) MIHOMO_CONFIG_FILE_PATH example_env
        example_world)) = []
   \<and> Unlink (tempPath MIHOMO_CONFIG_FILE_PATH example_env)
       \<notin> set (calls (snd (writeMihomoConfigFile (String oversized) MIHOMO_CONFIG_FILE_PATH
            example_env example_world)))"
proof -
  have "byteLength oversized > MAX_MIHOMO_CONFIG_SIZE_BYTES"
    by (simp add: byteLength_oversized)
  from write_oversized [OF this] show ?thesis
    by (simp add: example_world_def)
qed

text \<open>
  C8, as amended. A successful write returns the modification time that the file system
  stamped on the file it wrote. A read of the same path just before the call observes the
  modification time of the file then present; the returned time is greater than or equal
  to it when that earlier time is not later than the new stamp, and smaller otherwise.
\<close>

theorem write_returns_stamped_mtime:
  assumes ok: "fst (writeMihomoConfigFile v p env w) = Inr r"
    and rd: "fst (readMihomoConfigFile p renv w) = Inr before"
  shows
  "mtimeMs r = write_time env
   \<and> (\<exists>f. files w p = Some f \<and> mtimeMs before = file_mtimeMs f)
   \<and> (mtimeMs before \<le> write_time env \<longrightarrow> mtimeMs before \<le> mtimeMs r)
   \<and> (write_time env < mtimeMs before \<longrightarrow> mtimeMs r < mtimeMs before)"
proof -
  from write_success_cases [OF ok] have r: "mtimeMs r = write_time env" by simp
  from read_success [OF rd] have "\<exists>f. files w p = Some f \<and> mtimeMs before = file_mtimeMs f"
    by auto
  with r show ?thesis by simp
qed

text \<open>The file was last modified before the write.\<close>

theorem write_returns_stamped_mtime_witness:
  "fst (writeMihomoConfigFile (String new_content) MIHOMO_CONFIG_FILE_PATH example_env
          example_world) = Inr \<lparr>mtimeMs = 1700000000123\<rparr>
   \<and> fst (readMihomoConfigFile MIHOMO_CONFIG_FILE_PATH example_read_env example_world) =
       Inr \<lparr>mtimeMs = 1600000000000, content = js_str ''port: 7890\<newline>''\<rparr>
   \<and> mtimeMs (projr (fst (readMihomoConfigFile MIHOMO_CONFIG_FILE_PATH example_read_env
          example_world)))
       \<le> mtimeMs (projr (fst (writeMihomoConfigFile (String new_content) MIHOMO_CONFIG_FILE_PATH
            example_env example_world)))"
proof -
  have ok: "fst (writeMihomoConfigFile (String new_content) MIHOMO_CONFIG_FILE_PATH example_env
          example_world) = Inr \<lparr>mtimeMs = 1700000000123\<rparr>"
    by (simp add: write_accepted_result [OF new_content_small] example_env_def)
  have f: "files example_world MIHOMO_CONFIG_FILE_PATH =
      Some \<lparr>file_bytes = utf8_encode (js_str ''port: 7890\<newline>''), file_mtimeMs = 1600000000000\<rparr>"
    by (simp add: example_world_def)
  have rd: "fst (readMihomoConfigFile MIHOMO_CONFIG_FILE_PATH example_read_env example_world) =
       Inr \<lparr>mtimeMs = 1600000000000, content = js_str ''port: 7890\<newline>''\<rparr>"
    using read_present [OF f, of example_read_env]
    by (simp add: example_read_env_def decode_example)
  have le: "mtimeMs \<lparr>mtimeMs = 1600000000000, content = js_str ''port: 7890\<newline>''\<rparr>
      \<le> write_time example_env"
    by (simp add: example_env_def)
  from write_returns_stamped_mtime [OF ok rd] le ok rd show ?thesis by simp
qed

text \<open>
  C8 as it stands fails for a file whose modification time lies ahead of the time
  stamped on the new file (set by hand, copied with its time from another machine, or
  written before the clock was set back): the write succeeds and returns the smaller time.
\<close>

theorem mtime_can_decrease_counterexample:
  "fst (readMihomoConfigFile MIHOMO_CONFIG_FILE_PATH example_read_env future_world)
     = Inr \<lparr>mtimeMs = 1800000000000, content = js_str ''port: 7890\<newline>''\<rparr>
   \<and> fst (writeMihomoConfigFile (String new_content) MIHOMO_CONFIG_FILE_PATH example_env
          future_world) = Inr \<lparr>mtimeMs = 1700000000123\<rparr>
   \<and> mtimeMs (projr (fst (writeMihomoConfigFile (String new_content) MIHOMO_CONFIG_FILE_PATH
          example_env future_world)))
       < mtimeMs (projr (fst (readMihomoConfigFile MIHOMO_CONFIG_FILE_PATH example_read_env
            future_world)))"
proof -
  have f: "files future_world MIHOMO_CONFIG_FILE_PATH =
      Some \<lparr>file_bytes = utf8_encode (js_str ''port: 7890\<newline>''),
            file_mtimeMs = 1800000000000\<rparr>"
    by (simp add: future_world_def)
  have rd: "fst (readMihomoConfigFile MIHOMO_CONFIG_FILE_PATH example_read_env future_world)
     = Inr \<lparr>mtimeMs = 1800000000000, content = js_str ''port: 7890\<newline>''\<rparr>"
    using read_present [OF f, of example_read_env]
    by (simp add: example_read_env_def decode_example)
  have wr: "fst (writeMihomoConfigFile (String new_content) MIHOMO_CONFIG_FILE_PATH example_env
          future_world) = Inr \<lparr>mtimeMs = 1700000000123\<rparr>"
    by (simp add: write_accepted_result [OF new_content_small] example_env_def)
  show ?thesis unfolding rd wr by simp
qed

section \<open>Writing, then reading\<close>

text \<open>
  C1, as amended. For every well-formed string, one in which every surrogate is part of a
  pair: after a successful write (which implies that its UTF-8 encoding has at most
  \<open>2 * 1024 * 1024\<close> bytes), every read of the same path that returns a result returns the
  written string as its content, and a read whose storage calls meet no failure does
  return a result, with the written string and the modification time the write returned.
\<close>

theorem write_then_read_roundtrip:
  assumes wf: "well_formed s"
    and ok: "fst (writeMihomoConfigFile (String s) p env w) = Inr r"
  shows
  "(\<forall>renv rr. fst (readMihomoConfigFile p renv (snd (writeMihomoConfigFile (String s) p env w)))
        = Inr rr \<longrightarrow> content rr = s)
   \<and> (\<forall>renv. readFile_fault renv = None \<and> read_stat_fault renv = None \<longrightarrow>
        fst (readMihomoConfigFile p renv (snd (writeMihomoConfigFile (String s) p env w)))
          = Inr \<lparr>mtimeMs = mtimeMs r, content = s\<rparr>)"
proof -
  have f: "files (snd (writeMihomoConfigFile (String s) p env w)) p =
      Some \<lparr>file_bytes = utf8_encode s, file_mtimeMs = write_time env\<rparr>"
    using write_success_target [OF ok] by simp
  have m: "mtimeMs r = write_time env"
    using write_success_cases [OF ok] by simp
  show ?thesis
  proof (intro conjI allI impI)
    fix renv rr
    assume "fst (readMihomoConfigFile p renv (snd (writeMihomoConfigFile (String s) p env w)))
        = Inr rr"
    from read_success [OF this] f show "content rr = s"
      by (auto simp: utf8_roundtrip [OF wf])
  next
    fix renv :: read_env assume "readFile_fault renv = None \<and> read_stat_fault renv = None"
    then show "fst (readMihomoConfigFile p renv (snd (writeMihomoConfigFile (String s) p env w)))
          = Inr \<lparr>mtimeMs = mtimeMs r, content = s\<rparr>"
      using read_present [OF f, of renv] by (simp add: utf8_roundtrip [OF wf] m)
  qed
qed

text \<open>The scenario of the specification: \<open>port: 7891\<close> written over \<open>port: 7890\<close>.\<close>

theorem write_then_read_roundtrip_witness:
  "well_formed new_content
   \<and> fst (writeMihomoConfigFile (String new_content) MIHOMO_CONFIG_FILE_PATH example_env
          example_world) = Inr \<lparr>mtimeMs = 1700000000123\<rparr>
   \<and> fst (readMihomoConfigFile MIHOMO_CONFIG_FILE_PATH example_read_env
          (snd (writeMihomoConfigFile (String new_content) MIHOMO_CONFIG_FILE_PATH example_env
             example_world))) = Inr \<lparr>mtimeMs = 1700000000123, content = new_content\<rparr>"
proof -
  have w: "fst (writeMihomoConfigFile (String new_content) MIHOMO_CONFIG_FILE_PATH example_env
          example_world) = Inr \<lparr>mtimeMs = 1700000000123\<rparr>"
    by (simp add: write_accepted_result [OF new_content_small] example_env_def)
  from write_then_read_roundtrip [OF new_content_well_formed w] new_content_well_formed w
  show ?thesis by (simp add: example_read_env_def)
qed

text \<open>
  C1 as it stands fails on a string that holds a surrogate outside a pair: its
  three-byte encoding is that of U+FFFD, which is what the read returns.
\<close>

theorem lone_surrogate_roundtrip_counterexample:
  "fst (writeMihomoConfigFile (String lone_surrogate) MIHOMO_CONFIG_FILE_PATH example_env
          example_world) = Inr \<lparr>mtimeMs = 1700000000123\<rparr>
   \<and> fst (readMihomoConfigFile MIHOMO_CONFIG_FILE_PATH example_read_env
          (snd (writeMihomoConfigFile (String lone_surrogate) MIHOMO_CONFIG_FILE_PATH example_env
             example_world))) = Inr \<lparr>mtimeMs = 1700000000123, content = [0xFFFD]\<rparr>
   \<and> content (projr (fst (readMihomoConfigFile MIHOMO_CONFIG_FILE_PATH example_read_env
          (snd (writeMihomoConfigFile (String lone_surrogate) MIHOMO_CONFIG_FILE_PATH example_env
             example_world))))) \<noteq> lone_surrogate"
proof -
  have w: "fst (writeMihomoConfigFile (String lone_surrogate) MIHOMO_CONFIG_FILE_PATH example_env
          example_world) = Inr \<lparr>mtimeMs = 1700000000123\<rparr>"
    by (simp add: write_accepted_result [OF lone_small] example_env_def)
  have f: "files (snd (writeMihomoConfigFile (String lone_surrogate) MIHOMO_CONFIG_FILE_PATH
          example_env example_world)) MIHOMO_CONFIG_FILE_PATH =
        Some \<lparr>file_bytes = utf8_encode lone_surrogate, file_mtimeMs = 1700000000123\<rparr>"
    by (simp add: write_accepted_target [OF lone_small] example_env_def)
  have r: "fst (readMihomoConfigFile MIHOMO_CONFIG_FILE_PATH example_read_env
          (snd (writeMihomoConfigFile (String lone_surrogate) MIHOMO_CONFIG_FILE_PATH example_env
             example_world))) = Inr \<lparr>mtimeMs = 1700000000123, content = [0xFFFD]\<rparr>"
    using read_present [OF f, of example_read_env]
    by (simp add: example_read_env_def lone_decoded)
  show ?thesis
    unfolding r using w by (simp add: lone_surrogate_def)
qed

section \<open>The bounded remote fetch\<close>

text \<open>
  C9. For a well-formed URL and a response that is \<open>ok\<close>: when the \<open>content-length\<close> header is
  present, not empty, and its number exceeds \<open>2 * 1024 * 1024\<close>, the handler fails with status
  413; when the text of the body encodes to more than \<open>2 * 1024 * 1024\<close> bytes, the handler
  fails with status 413; and a text that the handler returns has at most that many bytes
  and came with no header declaring more. The bound is the constant of the configuration
  store.
\<close>

theorem fetch_rejects_oversized:
  assumes url: "truthy url" "typeof url = ''string''"
      "startsWith (as_string url) (js_str ''http://'') \<or> startsWith (as_string url) (js_str ''https://'')"
    and ok: "resp_ok r"
  shows
  "(\<forall>h. resp_content_length r = Some h \<and> h \<noteq> []
         \<and> number_gt (toNumber h) (real MAX_MIHOMO_CONFIG_SIZE_BYTES) \<longrightarrow>
      fetch_remote_handler toNumber toString url (Inr r) =
        Inl (H3 (createError 413 (js_str ''Remote file exceeds 2097152 bytes limit'') None)))
   \<and> (\<forall>c. resp_text r = Inr c \<and> byteLength c > MAX_MIHOMO_CONFIG_SIZE_BYTES \<longrightarrow>
      fetch_remote_handler toNumber toString url (Inr r) =
        Inl (H3 (createError 413 (js_str ''Remote file exceeds 2097152 bytes limit'') None)))
   \<and> (\<forall>c. fetch_remote_handler toNumber toString url (Inr r) = Inr c \<longrightarrow>
        resp_text r = Inr c \<and> byteLength c \<le> MAX_MIHOMO_CONFIG_SIZE_BYTES
        \<and> (\<forall>h. resp_content_length r = Some h \<longrightarrow>
              h = [] \<or> \<not> number_gt (toNumber h) (real MAX_MIHOMO_CONFIG_SIZE_BYTES)))"
proof (intro conjI allI impI)
  fix h assume "resp_content_length r = Some h \<and> h \<noteq> []
         \<and> number_gt (toNumber h) (real MAX_MIHOMO_CONFIG_SIZE_BYTES)"
  then show "fetch_remote_handler toNumber toString url (Inr r) =
        Inl (H3 (createError 413 (js_str ''Remote file exceeds 2097152 bytes limit'') None))"
    using ok by (simp add: handler_valid_url [OF url] fetch_try_declared catch_413)
next
  fix c assume "resp_text r = Inr c \<and> byteLength c > MAX_MIHOMO_CONFIG_SIZE_BYTES"
  then show "fetch_remote_handler toNumber toString url (Inr r) =
        Inl (H3 (createError 413 (js_str ''Remote file exceeds 2097152 bytes limit'') None))"
    using ok by (simp add: handler_valid_url [OF url] fetch_try_actual catch_413)
next
  fix c assume a: "fetch_remote_handler toNumber toString url (Inr r) = Inr c"
  then have t: "fetch_try toNumber (Inr r) = Inr c"
    by (simp add: handler_valid_url [OF url] split: sum.splits)
  from fetch_try_accepts [OF t] show "resp_text r = Inr c" by simp
  from fetch_try_accepts [OF t] show "byteLength c \<le> MAX_MIHOMO_CONFIG_SIZE_BYTES" by simp
  fix h assume "resp_content_length r = Some h"
  with fetch_try_accepts [OF t]
  show "h = [] \<or> \<not> number_gt (toNumber h) (real MAX_MIHOMO_CONFIG_SIZE_BYTES)" by simp
qed

text \<open>A response that declares one byte too many, and one that carries one byte too many.\<close>

theorem fetch_rejects_oversized_witness:
  "fetch_remote_handler digits_number as_string example_url (Inr declared_large) =
     Inl (H3 (createError 413 (js_str ''Remote file exceeds 2097152 bytes limit'') None))
   \<and> fetch_remote_handler digits_number as_string example_url (Inr undeclared_large) =
     Inl (H3 (createError 413 (js_str ''Remote file exceeds 2097152 bytes limit'') None))"
proof -
  have ok1: "resp_ok declared_large" and ok2: "resp_ok undeclared_large"
    by (simp_all add: declared_large_def undeclared_large_def)
  have h: "resp_content_length declared_large = Some (js_str ''2097153'') \<and> js_str ''2097153'' \<noteq> []
      \<and> number_gt (digits_number (js_str ''2097153'')) (real MAX_MIHOMO_CONFIG_SIZE_BYTES)"
    by (simp add: declared_large_def declared_number MAX_MIHOMO_CONFIG_SIZE_BYTES_def)
       (simp add: js_str_def)
  have c: "resp_text undeclared_large = Inr oversized
      \<and> byteLength oversized > MAX_MIHOMO_CONFIG_SIZE_BYTES"
    by (simp add: undeclared_large_def byteLength_oversized)
  from fetch_rejects_oversized [OF example_url_ok ok1, of digits_number as_string] h
       fetch_rejects_oversized [OF example_url_ok ok2, of digits_number as_string] c
  show ?thesis by blast
qed

end
